theory Spec2Isabelle
  imports Main
begin

section \<open>JavaScript values, strings and lodash helpers\<close>

text \<open>
  The parser works on the tree that the XML deserializer produces: every element is an
  object whose attribute map is \<^verbatim>\<open>$\<close> and whose child elements are arrays. An attribute or
  a child array that the document does not have is \<^verbatim>\<open>undefined\<close>; it is \<open>None\<close> here.
  Every element is taken to carry at least one attribute, so that its attribute map exists.
  Strings are \<open>char list\<close>.
\<close>

definition truthy :: "string option \<Rightarrow> bool" where
  \<comment> \<open>JavaScript truthiness of a value that is a string or undefined\<close>
  "truthy v = (case v of None \<Rightarrow> False | Some s \<Rightarrow> s \<noteq> [])"

definition js_string :: "string option \<Rightarrow> string" where
  \<comment> \<open>a value interpolated in a template literal\<close>
  "js_string v = (case v of None \<Rightarrow> ''undefined'' | Some s \<Rightarrow> s)"

definition lodash_toString :: "string option \<Rightarrow> string" where
  \<comment> \<open>lodash turns undefined into the empty string before it works on a string\<close>
  "lodash_toString v = (case v of None \<Rightarrow> [] | Some s \<Rightarrow> s)"

definition quoted :: "string \<Rightarrow> string" where
  \<comment> \<open>a string between two apostrophes, as the messages print names\<close>
  "quoted s = [CHR 0x27] @ s @ [CHR 0x27]"

section \<open>Errors\<close>

text \<open>
  The exceptions of the exception factory that this parser builds, and the runtime's own
  TypeError (reading a property of undefined). The first one thrown ends the parse.
\<close>

datatype exceptions = NullPointer | WrongType | WrongField | ReservedName

datatype error = BuildException exceptions string | TypeError

fun forEach :: "('a \<Rightarrow> 's \<Rightarrow> error + 's) \<Rightarrow> 'a list \<Rightarrow> 's \<Rightarrow> error + 's" where
  "forEach f [] s = Inr s"
| "forEach f (x # xs) s =
     (case f x s of Inl e \<Rightarrow> Inl e | Inr s' \<Rightarrow> forEach f xs s')"

section \<open>The input document\<close>

record uml_comment =
  body :: "string list option"

record uml_literal =
  literal_name :: "string option"

record uml_typeref =
  href :: "string option"

record uml_attribute =
  attr_name :: "string option"
  attr_type :: "string option"
  attr_id :: "string option"
  attr_typeElement :: "uml_typeref list option"
  attr_ownedComment :: "uml_comment list option"

record uml_bound =
  bound_value :: "string option"

record uml_end =
  end_type :: "string option"
  end_name :: "string option"
  lowerValue :: "uml_bound list"
  upperValue :: "uml_bound list"

record uml_element =
  xmi_type :: "string option"
  xmi_id :: "string option"
  name :: "string option"
  ownedLiteral :: "uml_literal list option"
  ownedAttribute :: "uml_attribute list option"
  ownedComment :: "uml_comment list option"
  ownedEnd :: "uml_end list"

record uml_root =
  packagedElement :: "uml_element list"

text \<open>
  \<open>ownedEnd\<close>, \<open>lowerValue\<close>, \<open>upperValue\<close> and \<open>packagedElement\<close> are used without a
  test for their presence. The deserializer never makes an empty array: an element without
  such children has no array at all. The empty list stands for the missing array, on which
  a read by index and a call of forEach both raise TypeError.
\<close>

definition at_index :: "'a list \<Rightarrow> nat \<Rightarrow> error + 'a" where
  "at_index xs i = (if i < length xs then Inr (xs ! i) else Inl TypeError)"

section \<open>The intermediate model\<close>

datatype cardinalities = ONE_TO_ONE | ONE_TO_MANY | MANY_TO_ONE | MANY_TO_MANY

record typeData =
  type_name :: string

record enumData =
  enum_name :: string
  enum_values :: "string list"

record classData =
  class_name :: string
  class_tableName :: string
  class_comment :: "string option"

record fieldData =
  field_name :: string
  field_type :: string
  field_comment :: "string option"

record associationData =
  assoc_from :: "string option"
  assoc_to :: "string option"
  injectedFieldInFrom :: "string option"
  injectedFieldInTo :: "string option"
  isInjectedFieldInFromRequired :: "bool option"
  isInjectedFieldInToRequired :: "bool option"
  assoc_type :: "cardinalities option"
  commentInFrom :: "string option"
  commentInTo :: "string option"

text \<open>
  Modelled from the spec: the container of the parsed data (\<^verbatim>\<open>parsedData\<close>), whose code is
  in another module. The spec describes it as append-only and indexed by the source
  element's identifier, with the operations addType, addEnum, addClass, addField and
  addAssociation. Each table is the list of the insertions in their order; an identifier
  is the \<^verbatim>\<open>xmi:id\<close> attribute as read, \<open>None\<close> when the element has none.
\<close>

record parsedData =
  pd_types :: "(string option \<times> typeData) list"
  pd_enums :: "(string option \<times> enumData) list"
  pd_classes :: "(string option \<times> classData) list"
  pd_fields :: "(string option \<times> string option \<times> fieldData) list"
  pd_associations :: "(string option \<times> associationData) list"

definition pd_empty :: parsedData where
  "pd_empty = \<lparr>pd_types = [], pd_enums = [], pd_classes = [], pd_fields = [],
     pd_associations = []\<rparr>"

definition pd_addType :: "string option \<Rightarrow> typeData \<Rightarrow> parsedData \<Rightarrow> parsedData" where
  "pd_addType i d pd = pd\<lparr>pd_types := pd_types pd @ [(i, d)]\<rparr>"

definition pd_addEnum :: "string option \<Rightarrow> enumData \<Rightarrow> parsedData \<Rightarrow> parsedData" where
  "pd_addEnum i d pd = pd\<lparr>pd_enums := pd_enums pd @ [(i, d)]\<rparr>"

definition pd_addClass :: "string option \<Rightarrow> classData \<Rightarrow> parsedData \<Rightarrow> parsedData" where
  "pd_addClass i d pd = pd\<lparr>pd_classes := pd_classes pd @ [(i, d)]\<rparr>"

definition pd_addField ::
  "string option \<Rightarrow> string option \<Rightarrow> fieldData \<Rightarrow> parsedData \<Rightarrow> parsedData" where
  "pd_addField classId i d pd = pd\<lparr>pd_fields := pd_fields pd @ [(classId, i, d)]\<rparr>"

definition pd_addAssociation ::
  "string option \<Rightarrow> associationData \<Rightarrow> parsedData \<Rightarrow> parsedData" where
  "pd_addAssociation i d pd = pd\<lparr>pd_associations := pd_associations pd @ [(i, d)]\<rparr>"

section \<open>What the parser is given\<close>

text \<open>
  The parser helper, the reserved-word lists and the database types live in other modules;
  the parser below takes them as parameters. \<open>contains\<close> and
  \<open>getName\<close> are the two methods of the database types that the parser calls;
  \<open>isAnId\<close>, \<open>extractClassName\<close> and \<open>getTypeNameFromURL\<close> are the parser helper's
  functions (the last one may raise); the three \<open>isReserved...\<close> tests are the
  reserved-word lists behind the three checks. \<open>toUpperCase\<close> and \<open>toLowerCase\<close> are the
  methods of the runtime's strings, \<open>upperFirst\<close> and \<open>lowerFirst\<close> the functions of lodash
  on a string: they follow the case mappings of Unicode, which are not written out here,
  and nothing is assumed of them. \<open>extractClassName\<close> and the test for
  a field take the name attribute as addClass and addRegularField pass it; their callers
  have checked before that it is a non-empty string.
\<close>

record names =
  entityName :: string
  tableName :: string

record env =
  contains :: "string \<Rightarrow> bool"
  getName :: string
  isAnId :: "string \<Rightarrow> bool"
  extractClassName :: "string option \<Rightarrow> names"
  getTypeNameFromURL :: "string option \<Rightarrow> error + string"
  isReservedClassName :: "string \<Rightarrow> bool"
  isReservedTableName :: "string \<Rightarrow> string \<Rightarrow> bool"
  isReservedFieldName :: "string option \<Rightarrow> string \<Rightarrow> bool"
  toUpperCase :: "string \<Rightarrow> string"
  toLowerCase :: "string \<Rightarrow> string"
  upperFirst :: "string \<Rightarrow> string"
  lowerFirst :: "string \<Rightarrow> string"

text \<open>
  Modelled from the spec: the three checks of the utilities module
  (checkForReservedClassName, checkForReservedTableName, checkForReservedFieldName), whose
  code is in another module. The parser calls them with \<^verbatim>\<open>shouldThrow: true\<close>; the spec says
  that a name that collides with a reserved word fails with ReservedName and that the
  error carries the offending name. The check of a class name is given no database type.
\<close>

definition checkForReservedClassName :: "env \<Rightarrow> string \<Rightarrow> error + unit" where
  "checkForReservedClassName E n =
     (if isReservedClassName E n then Inl (BuildException ReservedName n) else Inr ())"

definition checkForReservedTableName :: "env \<Rightarrow> string \<Rightarrow> string \<Rightarrow> error + unit" where
  "checkForReservedTableName E n databaseTypeName =
     (if isReservedTableName E n databaseTypeName
      then Inl (BuildException ReservedName n) else Inr ())"

definition checkForReservedFieldName ::
  "env \<Rightarrow> string option \<Rightarrow> string \<Rightarrow> error + unit" where
  "checkForReservedFieldName E n databaseTypeName =
     (if isReservedFieldName E n databaseTypeName
      then Inl (BuildException ReservedName (js_string n)) else Inr ())"

section \<open>The parser for UML Designer files\<close>

text \<open>
  The parser object: the four index lists, the parsed data and the id of the class named
  user. The document (\<^verbatim>\<open>this.root\<close>) and the database types never change during a parse
  and are arguments of every function.
\<close>

record parser =
  rawTypesIndexes :: "nat list"
  rawEnumsIndexes :: "nat list"
  rawClassesIndexes :: "nat list"
  rawAssociationsIndexes :: "nat list"
  parsedData :: parsedData
  userClassId :: "string option"

text \<open>
  Modelled from the spec: the constructor, which belongs to the abstract parser, a module of
  its own. The spec says that a parser starts with a fresh empty model; the index lists
  start empty and no user class is known.
\<close>

definition AbstractParser :: parser where
  "AbstractParser = \<lparr>rawTypesIndexes = [], rawEnumsIndexes = [], rawClassesIndexes = [],
     rawAssociationsIndexes = [], parsedData = pd_empty, userClassId = None\<rparr>"

definition classify :: "uml_element \<Rightarrow> nat \<Rightarrow> parser \<Rightarrow> parser" where
  \<comment> \<open>the switch of findElements on one element and its index\<close>
  "classify element index p =
     (if xmi_type element = Some ''uml:PrimitiveType'' \<or> xmi_type element = Some ''uml:DataType''
      then p\<lparr>rawTypesIndexes := rawTypesIndexes p @ [index]\<rparr>
      else if xmi_type element = Some ''uml:Enumeration''
      then p\<lparr>rawEnumsIndexes := rawEnumsIndexes p @ [index]\<rparr>
      else if xmi_type element = Some ''uml:Class''
      then p\<lparr>rawClassesIndexes := rawClassesIndexes p @ [index]\<rparr>
      else if xmi_type element = Some ''uml:Association''
      then p\<lparr>rawAssociationsIndexes := rawAssociationsIndexes p @ [index]\<rparr>
      else p)"

definition findElements :: "uml_root \<Rightarrow> parser \<Rightarrow> error + parser" where
  "findElements root p =
     (if packagedElement root = [] then Inl TypeError
      else Inr (fold (\<lambda>(element, index). classify element index)
                  (zip (packagedElement root) [0..<length (packagedElement root)]) p))"

definition addType :: "env \<Rightarrow> string option \<Rightarrow> string option \<Rightarrow> parser \<Rightarrow> error + parser" where
  "addType E typeName typeId p =
     (if \<not> contains E (upperFirst E (lodash_toString typeName))
      then Inl (BuildException WrongType
             (''The type '' @ quoted (js_string typeName) @ '' isn'' @ [CHR 0x27]
                @ ''t supported by JHipster.''))
      else Inr (p\<lparr>parsedData :=
             pd_addType typeId \<lparr>type_name = upperFirst E (lodash_toString typeName)\<rparr>
               (parsedData p)\<rparr>))"

definition fillType :: "env \<Rightarrow> uml_root \<Rightarrow> nat \<Rightarrow> parser \<Rightarrow> error + parser" where
  "fillType E root element p =
     (case at_index (packagedElement root) element of
        Inl e \<Rightarrow> Inl e
      | Inr type \<Rightarrow> addType E (name type) (xmi_id type) p)"

definition fillTypes :: "env \<Rightarrow> uml_root \<Rightarrow> parser \<Rightarrow> error + parser" where
  "fillTypes E root p = forEach (fillType E root) (rawTypesIndexes p) p"

definition fillLiteral :: "env \<Rightarrow> uml_literal \<Rightarrow> enumData \<Rightarrow> error + enumData" where
  "fillLiteral E literalIndex enumData =
     (case literal_name literalIndex of
        None \<Rightarrow> Inl TypeError
      | Some n \<Rightarrow>
          if toUpperCase E n = []
          then Inl (BuildException NullPointer
                 (''The Enumeration'' @ [CHR 0x27] @ ''s values can'' @ [CHR 0x27]
                    @ ''t be null.''))
          else Inr (enumData\<lparr>enum_values := enum_values enumData @ [toUpperCase E n]\<rparr>))"

definition fillEnum :: "env \<Rightarrow> uml_root \<Rightarrow> nat \<Rightarrow> parser \<Rightarrow> error + parser" where
  "fillEnum E root index p =
     (case at_index (packagedElement root) index of
        Inl e \<Rightarrow> Inl e
      | Inr enumElement \<Rightarrow>
          if \<not> truthy (name enumElement)
          then Inl (BuildException NullPointer
                 (''The enumeration'' @ [CHR 0x27] @ ''s name can'' @ [CHR 0x27]
                    @ ''t be null.''))
          else
            (case (case ownedLiteral enumElement of
                     None \<Rightarrow> Inr \<lparr>enum_name = js_string (name enumElement), enum_values = []\<rparr>
                   | Some literals \<Rightarrow>
                       forEach (fillLiteral E) literals
                         \<lparr>enum_name = js_string (name enumElement), enum_values = []\<rparr>) of
               Inl e \<Rightarrow> Inl e
             | Inr enumData \<Rightarrow>
                 Inr (p\<lparr>parsedData :=
                        pd_addEnum (xmi_id enumElement) enumData (parsedData p)\<rparr>)))"

definition fillEnums :: "env \<Rightarrow> uml_root \<Rightarrow> parser \<Rightarrow> error + parser" where
  "fillEnums E root p = forEach (fillEnum E root) (rawEnumsIndexes p) p"

definition firstCommentBody :: "uml_comment list option \<Rightarrow> error + string option" where
  \<comment> \<open>\<^verbatim>\<open>x.ownedComment && x.ownedComment[0].body\<close>, then \<^verbatim>\<open>x.ownedComment[0].body[0]\<close>:
      \<open>None\<close> when no comment is stored\<close>
  "firstCommentBody comments =
     (case comments of
        None \<Rightarrow> Inr None
      | Some cs \<Rightarrow>
          (case at_index cs 0 of
             Inl e \<Rightarrow> Inl e
           | Inr c \<Rightarrow>
               (case body c of
                  None \<Rightarrow> Inr None
                | Some b \<Rightarrow> Inr (case b of [] \<Rightarrow> None | text # _ \<Rightarrow> Some text))))"

definition checkForUserClass :: "env \<Rightarrow> uml_element \<Rightarrow> parser \<Rightarrow> error + parser" where
  "checkForUserClass E element p =
     (if truthy (userClassId p) then Inr p
      else
        (case name element of
           None \<Rightarrow> Inl TypeError
         | Some n \<Rightarrow>
             if toLowerCase E n = ''user'' then Inr (p\<lparr>userClassId := xmi_id element\<rparr>)
             else Inr p))"

definition addClass :: "env \<Rightarrow> uml_element \<Rightarrow> parser \<Rightarrow> error + parser" where
  "addClass E element p =
     (let names = extractClassName E (name element);
          className = upperFirst E (entityName names)
      in
        case checkForReservedClassName E className of
          Inl e \<Rightarrow> Inl e
        | Inr _ \<Rightarrow>
            (case checkForReservedTableName E (tableName names) (getName E) of
               Inl e \<Rightarrow> Inl e
             | Inr _ \<Rightarrow>
                 (case firstCommentBody (ownedComment element) of
                    Inl e \<Rightarrow> Inl e
                  | Inr comment \<Rightarrow>
                      Inr (p\<lparr>parsedData :=
                             pd_addClass (xmi_id element)
                               \<lparr>class_name = className, class_tableName = tableName names,
                                  class_comment = comment\<rparr>
                               (parsedData p)\<rparr>))))"

definition resolveFieldType ::
  "env \<Rightarrow> uml_attribute \<Rightarrow> parser \<Rightarrow> error + (string \<times> parser)" where
  \<comment> \<open>the three branches of addRegularField that give the field its type\<close>
  "resolveFieldType E element p =
     (if truthy (attr_type element) then Inr (js_string (attr_type element), p)
      else
        (case attr_typeElement element of
           None \<Rightarrow>
             Inl (BuildException WrongField
                    (''The field '' @ quoted (js_string (attr_name element))
                       @ '' does not possess any type.''))
         | Some ts \<Rightarrow>
             (case at_index ts 0 of
                Inl e \<Rightarrow> Inl e
              | Inr t \<Rightarrow>
                  (case getTypeNameFromURL E (href t) of
                     Inl e \<Rightarrow> Inl e
                   | Inr u \<Rightarrow>
                       (case addType E (Some (upperFirst E u)) (Some (upperFirst E u)) p of
                          Inl e \<Rightarrow> Inl e
                        | Inr p' \<Rightarrow> Inr (upperFirst E u, p'))))))"

definition addRegularField ::
  "env \<Rightarrow> uml_attribute \<Rightarrow> string option \<Rightarrow> parser \<Rightarrow> error + parser" where
  "addRegularField E element classId p =
     (case checkForReservedFieldName E (attr_name element) (getName E) of
        Inl e \<Rightarrow> Inl e
      | Inr _ \<Rightarrow>
          (case resolveFieldType E element p of
             Inl e \<Rightarrow> Inl e
           | Inr (fieldType, p') \<Rightarrow>
               (case firstCommentBody (attr_ownedComment element) of
                  Inl e \<Rightarrow> Inl e
                | Inr comment \<Rightarrow>
                    Inr (p'\<lparr>parsedData :=
                           pd_addField classId (attr_id element)
                             \<lparr>field_name = lowerFirst E (lodash_toString (attr_name element)),
                                field_type = fieldType, field_comment = comment\<rparr>
                             (parsedData p')\<rparr>))))"

definition addField ::
  "env \<Rightarrow> uml_attribute \<Rightarrow> string option \<Rightarrow> parser \<Rightarrow> error + parser" where
  "addField E element classId p = addRegularField E element classId p"

definition handleAttribute ::
  "env \<Rightarrow> uml_element \<Rightarrow> uml_attribute \<Rightarrow> parser \<Rightarrow> error + parser" where
  \<comment> \<open>the body of the loop of handleAttributes\<close>
  "handleAttribute E element attribute p =
     (case attr_name attribute of
        None \<Rightarrow>
          Inl (BuildException NullPointer
                 (''No name is defined for the passed attribute, for class ''
                    @ quoted (js_string (name element)) @ ''.''))
      | Some n \<Rightarrow>
          if n = []
          then Inl (BuildException NullPointer
                 (''No name is defined for the passed attribute, for class ''
                    @ quoted (js_string (name element)) @ ''.''))
          else if \<not> isAnId E n then addField E attribute (xmi_id element) p
          else Inr p)"

definition handleAttributes :: "env \<Rightarrow> uml_element \<Rightarrow> parser \<Rightarrow> error + parser" where
  "handleAttributes E element p =
     (case ownedAttribute element of
        None \<Rightarrow> Inl TypeError
      | Some attributes \<Rightarrow> forEach (handleAttribute E element) attributes p)"

definition fillClassAndFields :: "env \<Rightarrow> uml_root \<Rightarrow> nat \<Rightarrow> parser \<Rightarrow> error + parser" where
  \<comment> \<open>the body of the loop of fillClassesAndFields\<close>
  "fillClassAndFields E root index p =
     (case at_index (packagedElement root) index of
        Inl e \<Rightarrow> Inl e
      | Inr element \<Rightarrow>
          if \<not> truthy (name element)
          then Inl (BuildException NullPointer ''Classes must have a name.'')
          else
            (case checkForUserClass E element p of
               Inl e \<Rightarrow> Inl e
             | Inr p1 \<Rightarrow>
                 (case addClass E element p1 of
                    Inl e \<Rightarrow> Inl e
                  | Inr p2 \<Rightarrow>
                      (case ownedAttribute element of
                         None \<Rightarrow> Inr p2
                       | Some attributes \<Rightarrow> handleAttributes E element p2))))"

definition fillClassesAndFields :: "env \<Rightarrow> uml_root \<Rightarrow> parser \<Rightarrow> error + parser" where
  "fillClassesAndFields E root p =
     forEach (fillClassAndFields E root) (rawClassesIndexes p) p"

definition requiredFlags :: "uml_bound \<Rightarrow> uml_bound \<Rightarrow> associationData \<Rightarrow> associationData" where
  \<comment> \<open>the two tests of fillAssociations on the lower bounds of end 0 and end 1\<close>
  "requiredFlags lower0 lower1 d =
     (let d1 = (if bound_value lower0 \<noteq> Some ''0''
                then d\<lparr>isInjectedFieldInFromRequired := Some True\<rparr> else d)
      in if bound_value lower1 \<noteq> Some ''0''
         then d1\<lparr>isInjectedFieldInToRequired := Some True\<rparr> else d1)"

definition cardinality :: "uml_bound \<Rightarrow> uml_bound \<Rightarrow> associationData \<Rightarrow> associationData" where
  \<comment> \<open>the chain of tests of fillAssociations on the upper bounds of end 0 and end 1\<close>
  "cardinality upper0 upper1 d =
     (if bound_value upper1 = Some ''*'' \<and> bound_value upper0 = Some ''*''
      then d\<lparr>assoc_type := Some MANY_TO_MANY\<rparr>
      else if bound_value upper1 = Some ''*'' \<and> bound_value upper0 \<noteq> Some ''*''
      then d\<lparr>assoc_type := Some ONE_TO_MANY\<rparr>
      else if bound_value upper1 \<noteq> Some ''*'' \<and> bound_value upper0 = Some ''*''
      then d\<lparr>assoc_type := Some MANY_TO_ONE\<rparr>
      else d\<lparr>assoc_type := Some ONE_TO_ONE\<rparr>)"

definition comments :: "string option \<Rightarrow> associationData \<Rightarrow> associationData" where
  \<comment> \<open>the comment of the association, stored for the source side and copied from there\<close>
  "comments comment d =
     (case comment of
        None \<Rightarrow> d
      | Some text \<Rightarrow>
          (let d1 = d\<lparr>commentInFrom := Some text\<rparr>
           in d1\<lparr>commentInTo := commentInFrom d1\<rparr>))"

definition associationOf :: "uml_element \<Rightarrow> error + associationData" where
  \<comment> \<open>the object that the loop of fillAssociations builds for one association element\<close>
  "associationOf association =
     (case at_index (ownedEnd association) 0 of
        Inl e \<Rightarrow> Inl e
      | Inr end0 \<Rightarrow>
     (case at_index (ownedEnd association) 1 of
        Inl e \<Rightarrow> Inl e
      | Inr end1 \<Rightarrow>
     (case at_index (lowerValue end0) 0 of
        Inl e \<Rightarrow> Inl e
      | Inr lower0 \<Rightarrow>
     (case at_index (lowerValue end1) 0 of
        Inl e \<Rightarrow> Inl e
      | Inr lower1 \<Rightarrow>
     (case at_index (upperValue end1) 0 of
        Inl e \<Rightarrow> Inl e
      | Inr upper1 \<Rightarrow>
     (case at_index (upperValue end0) 0 of
        Inl e \<Rightarrow> Inl e
      | Inr upper0 \<Rightarrow>
     (case firstCommentBody (ownedComment association) of
        Inl e \<Rightarrow> Inl e
      | Inr comment \<Rightarrow>
          Inr (comments comment
                 (cardinality upper0 upper1
                    (requiredFlags lower0 lower1
                       \<lparr>assoc_from = end_type end0, assoc_to = end_type end1,
                          injectedFieldInFrom = end_name end1,
                          injectedFieldInTo = end_name end0,
                          isInjectedFieldInFromRequired = None,
                          isInjectedFieldInToRequired = None,
                          assoc_type = None, commentInFrom = None,
                          commentInTo = None\<rparr>))))))))))"

definition fillAssociation :: "uml_root \<Rightarrow> nat \<Rightarrow> parser \<Rightarrow> error + parser" where
  \<comment> \<open>the body of the loop of fillAssociations\<close>
  "fillAssociation root rawAssociationsIndex p =
     (case at_index (packagedElement root) rawAssociationsIndex of
        Inl e \<Rightarrow> Inl e
      | Inr association \<Rightarrow>
          (case associationOf association of
             Inl e \<Rightarrow> Inl e
           | Inr d \<Rightarrow>
               Inr (p\<lparr>parsedData :=
                      pd_addAssociation (xmi_id association) d (parsedData p)\<rparr>)))"

definition fillAssociations :: "uml_root \<Rightarrow> parser \<Rightarrow> error + parser" where
  "fillAssociations root p = forEach (fillAssociation root) (rawAssociationsIndexes p) p"

definition phases :: "env \<Rightarrow> uml_root \<Rightarrow> parser \<Rightarrow> error + parser" where
  \<comment> \<open>the five calls of parse, in their order\<close>
  "phases E root p =
     (case findElements root p of
        Inl e \<Rightarrow> Inl e
      | Inr p1 \<Rightarrow>
          (case fillTypes E root p1 of
             Inl e \<Rightarrow> Inl e
           | Inr p2 \<Rightarrow>
               (case fillEnums E root p2 of
                  Inl e \<Rightarrow> Inl e
                | Inr p3 \<Rightarrow>
                    (case fillClassesAndFields E root p3 of
                       Inl e \<Rightarrow> Inl e
                     | Inr p4 \<Rightarrow> fillAssociations root p4))))"

definition parse :: "env \<Rightarrow> uml_root \<Rightarrow> error + parsedData" where
  \<comment> \<open>parse, called on a parser that the constructor has just made\<close>
  "parse E root = map_sum id parsedData (phases E root AbstractParser)"

section \<open>Notions used in the statements\<close>

definition isIdentifier :: "env \<Rightarrow> uml_attribute \<Rightarrow> bool" where
  \<comment> \<open>the attribute has a name and the name matches the convention for structural identifiers\<close>
  "isIdentifier E a = (case attr_name a of None \<Rightarrow> False | Some n \<Rightarrow> isAnId E n)"

definition fieldKey :: "string option \<times> string option \<times> fieldData \<Rightarrow>
    string option \<times> string option \<times> string" where
  "fieldKey f = (case f of (classId, fieldId, d) \<Rightarrow> (classId, fieldId, field_name d))"

section \<open>Example documents\<close>

text \<open>
  An instance of the parameters and a few documents, for the concrete cases below. The
  instance has one reserved class name, one reserved table name and two reserved field
  names for the database type sql, takes as structural identifier any attribute named
  id, whatever its case, and reads the name of a type after the last \<open>#\<close> of a link.
\<close>

text \<open>
  The instance converts the case of the ASCII letters and leaves every other character as
  it is. The documents below are written in ASCII, where the runtime and lodash do the
  same.
\<close>

definition lower_letters :: string where
  "lower_letters = ''abcdefghijklmnopqrstuvwxyz''"

definition upper_letters :: string where
  "upper_letters = ''ABCDEFGHIJKLMNOPQRSTUVWXYZ''"

definition ascii_upper :: "char \<Rightarrow> char" where
  "ascii_upper c =
     (case map_of (zip lower_letters upper_letters) c of None \<Rightarrow> c | Some u \<Rightarrow> u)"

definition ascii_lower :: "char \<Rightarrow> char" where
  "ascii_lower c =
     (case map_of (zip upper_letters lower_letters) c of None \<Rightarrow> c | Some l \<Rightarrow> l)"

definition ascii_toUpperCase :: "string \<Rightarrow> string" where
  "ascii_toUpperCase s = map ascii_upper s"

definition ascii_toLowerCase :: "string \<Rightarrow> string" where
  "ascii_toLowerCase s = map ascii_lower s"

definition ascii_upperFirst :: "string \<Rightarrow> string" where
  "ascii_upperFirst s = (case s of [] \<Rightarrow> [] | c # cs \<Rightarrow> ascii_upper c # cs)"

definition ascii_lowerFirst :: "string \<Rightarrow> string" where
  "ascii_lowerFirst s = (case s of [] \<Rightarrow> [] | c # cs \<Rightarrow> ascii_lower c # cs)"

definition example_env :: env where
  "example_env = \<lparr>contains = (\<lambda>t. t \<in> set [''String'', ''Integer'']),
     getName = ''sql'',
     isAnId = (\<lambda>n. ascii_toLowerCase n = ''id''),
     extractClassName =
       (\<lambda>n. \<lparr>entityName = js_string n, tableName = ascii_toLowerCase (js_string n)\<rparr>),
     getTypeNameFromURL =
       (\<lambda>h. Inr (rev (takeWhile (\<lambda>c. c \<noteq> CHR ''#'') (rev (js_string h))))),
     isReservedClassName = (\<lambda>n. n = ''Class''),
     isReservedTableName = (\<lambda>n db. db = ''sql'' \<and> n = ''order''),
     isReservedFieldName =
       (\<lambda>n db. db = ''sql'' \<and> (n = Some ''select'' \<or> n = Some ''id'')),
     toUpperCase = ascii_toUpperCase, toLowerCase = ascii_toLowerCase,
     upperFirst = ascii_upperFirst, lowerFirst = ascii_lowerFirst\<rparr>"

definition empty_element :: uml_element where
  "empty_element = \<lparr>xmi_type = None, xmi_id = None, name = None, ownedLiteral = None,
     ownedAttribute = None, ownedComment = None, ownedEnd = []\<rparr>"

definition empty_attribute :: uml_attribute where
  "empty_attribute = \<lparr>attr_name = None, attr_type = None, attr_id = None,
     attr_typeElement = None, attr_ownedComment = None\<rparr>"

definition role_end :: "string \<Rightarrow> string \<Rightarrow> string \<Rightarrow> string \<Rightarrow> uml_end" where
  "role_end t n lower upper = \<lparr>end_type = Some t, end_name = Some n,
     lowerValue = [\<lparr>bound_value = Some lower\<rparr>], upperValue = [\<lparr>bound_value = Some upper\<rparr>]\<rparr>"

definition example_association :: "string \<Rightarrow> string \<Rightarrow> string \<Rightarrow> string \<Rightarrow> uml_element" where
  "example_association lower0 upper0 lower1 upper1 =
     empty_element\<lparr>xmi_type := Some ''uml:Association'', xmi_id := Some ''as1'',
       ownedComment := Some [\<lparr>body = Some [''placed by'']\<rparr>],
       ownedEnd := [role_end ''c1'' ''customer'' lower0 upper0,
                    role_end ''c2'' ''orders'' lower1 upper1]\<rparr>"

definition customer_class :: uml_element where
  "customer_class = empty_element\<lparr>xmi_type := Some ''uml:Class'', xmi_id := Some ''c1'',
     name := Some ''Customer'',
     ownedAttribute := Some [empty_attribute\<lparr>attr_name := Some ''name'',
       attr_type := Some ''string'', attr_id := Some ''a1''\<rparr>]\<rparr>"

definition status_enumeration :: "uml_literal list \<Rightarrow> uml_element" where
  "status_enumeration literals = empty_element\<lparr>xmi_type := Some ''uml:Enumeration'',
     xmi_id := Some ''e1'', name := Some ''Status'', ownedLiteral := Some literals\<rparr>"

definition many_to_one_data :: associationData where
  "many_to_one_data = \<lparr>assoc_from = Some ''c1'', assoc_to = Some ''c2'',
               injectedFieldInFrom = Some ''orders'',
               injectedFieldInTo = Some ''customer'',
               isInjectedFieldInFromRequired = Some True,
               isInjectedFieldInToRequired = None,
               assoc_type = Some MANY_TO_ONE, commentInFrom = Some ''placed by'',
               commentInTo = Some ''placed by''\<rparr>"

definition order_document :: uml_root where
  "order_document =
     \<lparr>packagedElement = [customer_class, example_association ''1'' ''*'' ''0'' ''1'']\<rparr>"

definition order_model :: parsedData where
  "order_model = \<lparr>pd_types = [], pd_enums = [],
        pd_classes = [(Some ''c1'', \<lparr>class_name = ''Customer'', class_tableName = ''customer'',
               class_comment = None\<rparr>)],
        pd_fields = [(Some ''c1'', Some ''a1'', \<lparr>field_name = ''name'', field_type = ''string'',
               field_comment = None\<rparr>)],
        pd_associations = [(Some ''as1'', many_to_one_data)]\<rparr>"

definition plain_association :: uml_element where
  "plain_association = (example_association ''0'' ''1'' ''0'' ''1'')\<lparr>ownedComment := None\<rparr>"

definition plain_data :: associationData where
  "plain_data = \<lparr>assoc_from = Some ''c1'', assoc_to = Some ''c2'',
     injectedFieldInFrom = Some ''orders'', injectedFieldInTo = Some ''customer'',
     isInjectedFieldInFromRequired = None, isInjectedFieldInToRequired = None,
     assoc_type = Some ONE_TO_ONE, commentInFrom = None, commentInTo = None\<rparr>"

definition customer_document :: uml_root where
  "customer_document = \<lparr>packagedElement = [customer_class]\<rparr>"

definition unnamed_literal_document :: uml_root where
  "unnamed_literal_document = \<lparr>packagedElement =
     [status_enumeration [\<lparr>literal_name = Some ''active''\<rparr>, \<lparr>literal_name = None\<rparr>]]\<rparr>"

definition empty_literal_document :: uml_root where
  "empty_literal_document = \<lparr>packagedElement =
     [status_enumeration [\<lparr>literal_name = Some ''active''\<rparr>, \<lparr>literal_name = Some ''''\<rparr>]]\<rparr>"

definition status_document :: uml_root where
  "status_document = \<lparr>packagedElement =
     [status_enumeration [\<lparr>literal_name = Some ''active''\<rparr>,
        \<lparr>literal_name = Some ''inactive''\<rparr>]]\<rparr>"

definition unnamed_enumeration_document :: uml_root where
  "unnamed_enumeration_document = \<lparr>packagedElement =
     [(status_enumeration [\<lparr>literal_name = Some ''active''\<rparr>])\<lparr>name := None\<rparr>]\<rparr>"

definition id_attribute :: uml_attribute where
  "id_attribute = empty_attribute\<lparr>attr_name := Some ''id'', attr_id := Some ''a0''\<rparr>"

definition name_attribute :: uml_attribute where
  "name_attribute = empty_attribute\<lparr>attr_name := Some ''name'', attr_type := Some ''string'',
     attr_id := Some ''a1''\<rparr>"

definition identifier_class :: uml_element where
  "identifier_class = customer_class\<lparr>ownedAttribute :=
     Some [id_attribute, name_attribute,
           id_attribute\<lparr>attr_name := Some ''ID'', attr_id := Some ''a2''\<rparr>]\<rparr>"

definition identifier_document :: uml_root where
  "identifier_document = \<lparr>packagedElement = [identifier_class]\<rparr>"

definition customer_model :: parsedData where
  "customer_model = \<lparr>pd_types = [], pd_enums = [],
     pd_classes = [(Some ''c1'', \<lparr>class_name = ''Customer'', class_tableName = ''customer'',
        class_comment = None\<rparr>)],
     pd_fields = [(Some ''c1'', Some ''a1'', \<lparr>field_name = ''name'', field_type = ''string'',
        field_comment = None\<rparr>)],
     pd_associations = []\<rparr>"

definition untyped_attribute :: uml_attribute where
  "untyped_attribute = empty_attribute\<lparr>attr_name := Some ''age'', attr_id := Some ''a3''\<rparr>"

definition untyped_document :: "uml_attribute list \<Rightarrow> uml_root" where
  "untyped_document attributes =
     \<lparr>packagedElement = [customer_class\<lparr>ownedAttribute := Some attributes\<rparr>]\<rparr>"

definition select_attribute :: uml_attribute where
  "select_attribute = empty_attribute\<lparr>attr_name := Some ''select'',
     attr_type := Some ''string'', attr_id := Some ''a4''\<rparr>"

definition class_named :: "string \<Rightarrow> uml_attribute list \<Rightarrow> uml_element" where
  "class_named n attributes = empty_element\<lparr>xmi_type := Some ''uml:Class'',
     xmi_id := Some ''c2'', name := Some n, ownedAttribute := Some attributes\<rparr>"

definition identifier_parser :: parser where
  "identifier_parser = AbstractParser\<lparr>parsedData := pd_empty\<lparr>pd_fields :=
     [(Some ''c1'', Some ''a1'',
       \<lparr>field_name = ''name'', field_type = ''string'', field_comment = None\<rparr>)]\<rparr>\<rparr>"

definition reserved_document :: uml_root where
  "reserved_document = \<lparr>packagedElement = [class_named ''Class'' [select_attribute]]\<rparr>"

definition linked_attribute :: uml_attribute where
  "linked_attribute = empty_attribute\<lparr>attr_name := Some ''Count'', attr_id := Some ''a5'',
     attr_typeElement := Some [\<lparr>href = Some ''types.uml#integer''\<rparr>]\<rparr>"

definition string_type :: uml_element where
  "string_type = empty_element\<lparr>xmi_type := Some ''uml:PrimitiveType'', xmi_id := Some ''t1'',
     name := Some ''string''\<rparr>"

definition typed_document :: uml_root where
  "typed_document = \<lparr>packagedElement =
     [string_type, customer_class\<lparr>ownedAttribute := Some [name_attribute, linked_attribute]\<rparr>]\<rparr>"

definition classified_parser :: parser where
  "classified_parser = AbstractParser\<lparr>rawClassesIndexes := [0]\<rparr>"

definition customer_parser :: "string option \<Rightarrow> parser" where
  "customer_parser classId = classified_parser\<lparr>parsedData :=
     pd_addClass classId
       \<lparr>class_name = ''Customer'', class_tableName = ''customer'', class_comment = None\<rparr>
       pd_empty\<rparr>"

definition customer_name_parser :: "string option \<Rightarrow> parser" where
  "customer_name_parser classId = (customer_parser classId)\<lparr>parsedData :=
     pd_addField classId (Some ''a1'')
       \<lparr>field_name = ''name'', field_type = ''string'', field_comment = None\<rparr>
       (parsedData (customer_parser classId))\<rparr>"

definition reserved_table_document :: uml_root where
  "reserved_table_document = \<lparr>packagedElement = [class_named ''Order'' []]\<rparr>"

definition reserved_field_document :: uml_root where
  "reserved_field_document =
     \<lparr>packagedElement = [class_named ''Customer'' [name_attribute, select_attribute]]\<rparr>"

section \<open>Proof tools\<close>

text \<open>
  \<open>frame p p'\<close>: the index lists and the associations of the parser \<open>p'\<close> are those of \<open>p\<close>.
  The phases before the associations keep them.
\<close>

definition frame :: "parser \<Rightarrow> parser \<Rightarrow> bool" where
  "frame p p' \<longleftrightarrow>
     rawTypesIndexes p' = rawTypesIndexes p \<and> rawEnumsIndexes p' = rawEnumsIndexes p \<and>
     rawClassesIndexes p' = rawClassesIndexes p \<and>
     rawAssociationsIndexes p' = rawAssociationsIndexes p \<and>
     pd_associations (parsedData p') = pd_associations (parsedData p)"

lemmas example_defs = example_env_def empty_element_def empty_attribute_def role_end_def
  example_association_def customer_class_def status_enumeration_def

lemmas more_defs = id_attribute_def name_attribute_def identifier_class_def
  identifier_document_def customer_model_def untyped_attribute_def untyped_document_def
  select_attribute_def class_named_def

lemmas run_defs = parse_def phases_def findElements_def classify_def AbstractParser_def pd_empty_def
  fillTypes_def fillType_def addType_def fillEnums_def fillEnum_def fillLiteral_def
  fillClassesAndFields_def fillClassAndFields_def checkForUserClass_def addClass_def
  handleAttributes_def handleAttribute_def addField_def addRegularField_def resolveFieldType_def
  checkForReservedClassName_def checkForReservedTableName_def checkForReservedFieldName_def
  firstCommentBody_def fillAssociations_def fillAssociation_def associationOf_def
  requiredFlags_def cardinality_def comments_def at_index_def truthy_def js_string_def
  lodash_toString_def pd_addType_def pd_addEnum_def pd_addClass_def pd_addField_def
  pd_addAssociation_def ascii_toUpperCase_def ascii_toLowerCase_def ascii_upper_def ascii_lower_def
  upper_letters_def lower_letters_def ascii_upperFirst_def ascii_lowerFirst_def quoted_def

lemmas state_defs = classified_parser_def customer_parser_def customer_name_parser_def

subsection \<open>Loops\<close>

lemma forEach_append:
  "forEach f (xs @ ys) s = (case forEach f xs s of Inl e \<Rightarrow> Inl e | Inr s' \<Rightarrow> forEach f ys s')"
  by (induction xs arbitrary: s) (auto split: sum.splits)

lemma forEach_fails:
  "x \<in> set xs \<Longrightarrow> (\<And>s. \<exists>e. f x s = Inl e) \<Longrightarrow> \<exists>e. forEach f xs s = Inl e"
proof (induction xs arbitrary: s)
  case Nil
  then show ?case by simp
next
  case (Cons y ys)
  show ?case
  proof (cases "f y s")
    case (Inl e)
    then show ?thesis by simp
  next
    case (Inr s')
    show ?thesis
    proof (cases "x = y")
      case True
      with Cons.prems(2)[of s] Inr show ?thesis by auto
    next
      case False
      with Cons.prems(1) have "x \<in> set ys" by simp
      from Cons.IH[OF this Cons.prems(2), of s'] Inr show ?thesis by simp
    qed
  qed
qed

lemma forEach_invariant:
  assumes "forEach f xs s = Inr s'" and "I s"
    and "\<And>x t t'. x \<in> set xs \<Longrightarrow> I t \<Longrightarrow> f x t = Inr t' \<Longrightarrow> I t'"
  shows "I s'"
  using assms
proof (induction xs arbitrary: s)
  case Nil
  then show ?case by simp
next
  case (Cons y ys)
  from Cons.prems(1) obtain t where t: "f y s = Inr t" and rest: "forEach f ys t = Inr s'"
    by (auto split: sum.splits)
  have "I t" using Cons.prems(3)[of y s t] Cons.prems(2) t by simp
  show ?case
    by (rule Cons.IH[OF rest \<open>I t\<close>]) (use Cons.prems(3) in auto)
qed

lemma associationOf_shape:
  assumes "ownedEnd a = e0 # e1 # es"
    and "lowerValue e0 = l0 # ls0" and "lowerValue e1 = l1 # ls1"
    and "upperValue e0 = u0 # us0" and "upperValue e1 = u1 # us1"
    and "firstCommentBody (ownedComment a) = Inr c"
  shows "associationOf a =
     Inr (comments c (cardinality u0 u1 (requiredFlags l0 l1
       \<lparr>assoc_from = end_type e0, assoc_to = end_type e1,
          injectedFieldInFrom = end_name e1, injectedFieldInTo = end_name e0,
          isInjectedFieldInFromRequired = None, isInjectedFieldInToRequired = None,
          assoc_type = None, commentInFrom = None, commentInTo = None\<rparr>)))"
  using assms by (simp add: associationOf_def at_index_def)

lemma associationOf_Inr:
  assumes "associationOf a = Inr d"
  shows "\<exists>e0 e1 es l0 ls0 l1 ls1 u0 us0 u1 us1 c.
    ownedEnd a = e0 # e1 # es \<and> lowerValue e0 = l0 # ls0 \<and> lowerValue e1 = l1 # ls1 \<and>
    upperValue e0 = u0 # us0 \<and> upperValue e1 = u1 # us1 \<and>
    firstCommentBody (ownedComment a) = Inr c"
proof -
  from assms have n: "1 < length (ownedEnd a)"
    by (auto simp: associationOf_def at_index_def split: if_splits sum.splits)
  then obtain e0 e1 es where oe: "ownedEnd a = e0 # e1 # es"
    by (cases "ownedEnd a"; cases "tl (ownedEnd a)") auto
  from assms oe have "lowerValue e0 \<noteq> [] \<and> lowerValue e1 \<noteq> [] \<and> upperValue e0 \<noteq> [] \<and> upperValue e1 \<noteq> []
     \<and> (\<exists>c. firstCommentBody (ownedComment a) = Inr c)"
    by (auto simp: associationOf_def at_index_def split: if_splits sum.splits)
  then show ?thesis using oe by (auto simp: neq_Nil_conv)
qed

lemma cardinality_type:
  "assoc_type (cardinality u0 u1 d) = Some
     (if bound_value u1 = Some ''*'' then (if bound_value u0 = Some ''*'' then MANY_TO_MANY else ONE_TO_MANY)
      else (if bound_value u0 = Some ''*'' then MANY_TO_ONE else ONE_TO_ONE))"
  by (simp add: cardinality_def)

lemma comments_type: "assoc_type (comments c d) = assoc_type d"
  by (simp add: comments_def Let_def split: option.splits)

lemma requiredFlags_type: "assoc_type (requiredFlags l0 l1 d) = assoc_type d"
  by (simp add: requiredFlags_def Let_def)

subsection \<open>Classification\<close>

lemma classify_frame:
  "parsedData (classify e i p) = parsedData p" "userClassId (classify e i p) = userClassId p"
  by (simp_all add: classify_def)

lemma fold_classify_frame:
  "parsedData (fold (\<lambda>(e, i). classify e i) ps p) = parsedData p"
  by (induction ps arbitrary: p) (auto simp: classify_frame)

lemma fold_classify_classes:
  "rawClassesIndexes (fold (\<lambda>(e, i). classify e i) ps p) =
     rawClassesIndexes p @ map snd (filter (\<lambda>(e, i). xmi_type e = Some ''uml:Class'') ps)"
  by (induction ps arbitrary: p) (auto simp: classify_def)

lemma fold_classify_associations:
  "rawAssociationsIndexes (fold (\<lambda>(e, i). classify e i) ps p) =
     rawAssociationsIndexes p @ map snd (filter (\<lambda>(e, i). xmi_type e = Some ''uml:Association'') ps)"
  by (induction ps arbitrary: p) (auto simp: classify_def)

lemma fold_classify_enums:
  "rawEnumsIndexes (fold (\<lambda>(e, i). classify e i) ps p) =
     rawEnumsIndexes p @ map snd (filter (\<lambda>(e, i). xmi_type e = Some ''uml:Enumeration'') ps)"
  by (induction ps arbitrary: p) (auto simp: classify_def)

lemma fold_classify_types:
  "rawTypesIndexes (fold (\<lambda>(e, i). classify e i) ps p) =
     rawTypesIndexes p @ map snd (filter (\<lambda>(e, i). xmi_type e = Some ''uml:PrimitiveType''
        \<or> xmi_type e = Some ''uml:DataType'') ps)"
  by (induction ps arbitrary: p) (auto simp: classify_def split: if_splits)

lemma zip_upt_filter_set:
  "set (map snd (filter (\<lambda>(e, i). P e) (zip xs [0..<length xs]))) = {i. i < length xs \<and> P (xs ! i)}"
proof (rule set_eqI)
  fix i
  have "(\<exists>e. (e, i) \<in> set (zip xs [0..<length xs]) \<and> P e) \<longleftrightarrow> (i < length xs \<and> P (xs ! i))"
  proof
    assume "\<exists>e. (e, i) \<in> set (zip xs [0..<length xs]) \<and> P e"
    then show "i < length xs \<and> P (xs ! i)" by (auto simp: in_set_zip)
  next
    assume a: "i < length xs \<and> P (xs ! i)"
    then have "(xs ! i, i) \<in> set (zip xs [0..<length xs])"
      unfolding in_set_zip by (intro exI[of _ i]) simp
    with a show "\<exists>e. (e, i) \<in> set (zip xs [0..<length xs]) \<and> P e" by blast
  qed
  then show "i \<in> set (map snd (filter (\<lambda>(e, i). P e) (zip xs [0..<length xs])))
      \<longleftrightarrow> i \<in> {i. i < length xs \<and> P (xs ! i)}"
    by (auto simp: image_iff)
qed

lemma findElements_classes:
  "findElements root AbstractParser = Inr p0 \<Longrightarrow>
   set (rawClassesIndexes p0) =
     {i. i < length (packagedElement root) \<and> xmi_type (packagedElement root ! i) = Some ''uml:Class''}"
  by (auto simp: findElements_def fold_classify_classes zip_upt_filter_set AbstractParser_def
      simp del: set_map set_filter split: if_splits)

lemma findElements_associations:
  "findElements root AbstractParser = Inr p0 \<Longrightarrow>
   set (rawAssociationsIndexes p0) =
     {i. i < length (packagedElement root) \<and> xmi_type (packagedElement root ! i) = Some ''uml:Association''}"
  by (auto simp: findElements_def fold_classify_associations zip_upt_filter_set AbstractParser_def
      simp del: set_map set_filter split: if_splits)

lemma findElements_enums:
  "findElements root AbstractParser = Inr p0 \<Longrightarrow>
   set (rawEnumsIndexes p0) =
     {i. i < length (packagedElement root) \<and> xmi_type (packagedElement root ! i) = Some ''uml:Enumeration''}"
  by (auto simp: findElements_def fold_classify_enums zip_upt_filter_set AbstractParser_def
      simp del: set_map set_filter split: if_splits)

lemma findElements_parsedData:
  "findElements root p = Inr p0 \<Longrightarrow> parsedData p0 = parsedData p"
  by (auto simp: findElements_def fold_classify_frame split: if_splits)

subsection \<open>What the phases leave unchanged\<close>

lemma frame_refl: "frame p p"
  by (simp add: frame_def)

lemma frame_trans: "frame p q \<Longrightarrow> frame q r \<Longrightarrow> frame p r"
  by (simp add: frame_def)

lemma forEach_frame:
  assumes "forEach f xs p = Inr p'" and "\<And>x t t'. f x t = Inr t' \<Longrightarrow> frame t t'"
  shows "frame p p'"
  by (rule forEach_invariant[where I = "frame p", OF assms(1) frame_refl])
    (blast intro: frame_trans assms(2))

lemma addType_frame: "addType E n i p = Inr p' \<Longrightarrow> frame p p'"
  by (auto simp: addType_def frame_def pd_addType_def split: if_splits)

lemma fillType_frame: "fillType E root i p = Inr p' \<Longrightarrow> frame p p'"
  by (auto simp: fillType_def split: sum.splits dest: addType_frame)

lemma fillTypes_frame: "fillTypes E root p = Inr p' \<Longrightarrow> frame p p'"
  unfolding fillTypes_def by (erule forEach_frame) (rule fillType_frame)

lemma fillEnum_frame: "fillEnum E root i p = Inr p' \<Longrightarrow> frame p p'"
  by (auto simp: fillEnum_def frame_def pd_addEnum_def split: sum.splits if_splits option.splits)

lemma fillEnums_frame: "fillEnums E root p = Inr p' \<Longrightarrow> frame p p'"
  unfolding fillEnums_def by (erule forEach_frame) (rule fillEnum_frame)

lemma checkForUserClass_frame: "checkForUserClass E e p = Inr p' \<Longrightarrow> frame p p'"
  by (auto simp: checkForUserClass_def frame_def split: if_splits option.splits)

lemma addClass_frame: "addClass E e p = Inr p' \<Longrightarrow> frame p p'"
  by (auto simp: addClass_def Let_def frame_def pd_addClass_def split: sum.splits)

lemma resolveFieldType_frame: "resolveFieldType E a p = Inr (t, p') \<Longrightarrow> frame p p'"
  by (auto simp: resolveFieldType_def frame_refl split: if_splits option.splits sum.splits
      dest: addType_frame)

lemma addRegularField_frame: "addRegularField E a c p = Inr p' \<Longrightarrow> frame p p'"
proof -
  assume a: "addRegularField E a c p = Inr p'"
  then obtain t q where r: "resolveFieldType E a p = Inr (t, q)"
    by (auto simp: addRegularField_def split: sum.splits)
  with a have "frame q p'"
    by (auto simp: addRegularField_def frame_def pd_addField_def split: sum.splits)
  with resolveFieldType_frame[OF r] show ?thesis by (rule frame_trans)
qed

lemma handleAttribute_frame: "handleAttribute E e a p = Inr p' \<Longrightarrow> frame p p'"
  by (auto simp: handleAttribute_def addField_def frame_refl split: option.splits if_splits
      dest: addRegularField_frame)

lemma handleAttributes_frame: "handleAttributes E e p = Inr p' \<Longrightarrow> frame p p'"
  unfolding handleAttributes_def
  by (auto split: option.splits elim!: forEach_frame intro: handleAttribute_frame)

lemma fillClassAndFields_frame: "fillClassAndFields E root i p = Inr p' \<Longrightarrow> frame p p'"
  by (auto simp: fillClassAndFields_def split: sum.splits if_splits option.splits
      dest!: checkForUserClass_frame addClass_frame handleAttributes_frame
      intro: frame_trans)

lemma fillClassesAndFields_frame: "fillClassesAndFields E root p = Inr p' \<Longrightarrow> frame p p'"
  unfolding fillClassesAndFields_def by (erule forEach_frame) (rule fillClassAndFields_frame)

lemma fillAssociations_origin:
  assumes "forEach (fillAssociation root) is p = Inr p'"
    and "x \<in> set (pd_associations (parsedData p'))"
  shows "x \<in> set (pd_associations (parsedData p)) \<or>
     (\<exists>i \<in> set is. i < length (packagedElement root) \<and>
        fst x = xmi_id (packagedElement root ! i) \<and>
        associationOf (packagedElement root ! i) = Inr (snd x))"
  using assms
proof (induction "is" arbitrary: p)
  case Nil
  then show ?case by simp
next
  case (Cons i "is")
  from Cons.prems(1) obtain q where q: "fillAssociation root i p = Inr q"
    and rest: "forEach (fillAssociation root) is q = Inr p'"
    by (auto split: sum.splits)
  from q obtain d where i: "i < length (packagedElement root)"
    and d: "associationOf (packagedElement root ! i) = Inr d"
    and qd: "pd_associations (parsedData q) =
       pd_associations (parsedData p) @ [(xmi_id (packagedElement root ! i), d)]"
    by (auto simp: fillAssociation_def at_index_def pd_addAssociation_def
        split: sum.splits if_splits)
  from Cons.IH[OF rest Cons.prems(2)] show ?case
  proof
    assume "x \<in> set (pd_associations (parsedData q))"
    with qd i d show ?thesis by auto
  next
    assume "\<exists>i\<in>set is. i < length (packagedElement root) \<and>
        fst x = xmi_id (packagedElement root ! i) \<and>
        associationOf (packagedElement root ! i) = Inr (snd x)"
    then show ?thesis by auto
  qed
qed

lemma phases_Inr:
  assumes "phases E root p = Inr p'"
  obtains p0 p1 p2 p3 where "findElements root p = Inr p0"
    and "fillTypes E root p0 = Inr p1" and "fillEnums E root p1 = Inr p2"
    and "fillClassesAndFields E root p2 = Inr p3" and "fillAssociations root p3 = Inr p'"
  using assms by (auto simp: phases_def split: sum.splits)

lemma parse_association_origin:
  assumes "parse E root = Inr m" and "(i, d) \<in> set (pd_associations m)"
  shows "\<exists>a \<in> set (packagedElement root).
     xmi_type a = Some ''uml:Association'' \<and> xmi_id a = i \<and> associationOf a = Inr d"
proof -
  from assms(1) obtain p' where p': "phases E root AbstractParser = Inr p'"
    and m: "m = parsedData p'"
    by (cases "phases E root AbstractParser") (auto simp: parse_def)
  from p' obtain p0 p1 p2 p3 where 0: "findElements root AbstractParser = Inr p0"
    and 1: "fillTypes E root p0 = Inr p1" and 2: "fillEnums E root p1 = Inr p2"
    and 3: "fillClassesAndFields E root p2 = Inr p3" and a: "fillAssociations root p3 = Inr p'"
    by (rule phases_Inr)
  have f: "frame p0 p3"
    using fillTypes_frame[OF 1] fillEnums_frame[OF 2] fillClassesAndFields_frame[OF 3]
    by (blast intro: frame_trans)
  from f have e: "pd_associations (parsedData p3) = []"
    and r: "rawAssociationsIndexes p3 = rawAssociationsIndexes p0"
    using findElements_parsedData[OF 0]
    by (simp_all add: frame_def AbstractParser_def pd_empty_def)
  from fillAssociations_origin[OF a[unfolded fillAssociations_def]] assms(2) m e
  obtain k where "k \<in> set (rawAssociationsIndexes p3)" "k < length (packagedElement root)"
    "i = xmi_id (packagedElement root ! k)" "associationOf (packagedElement root ! k) = Inr d"
    by force
  with r findElements_associations[OF 0] show ?thesis
    by (intro bexI[of _ "packagedElement root ! k"]) auto
qed

section \<open>Associations\<close>

text \<open>
  C3. The cardinality of an association is derived from the upper bounds of its two ends:
  both equal to \<open>*\<close> gives MANY_TO_MANY; end 1 equal to \<open>*\<close> and end 0 not gives ONE_TO_MANY;
  end 0 equal to \<open>*\<close> and end 1 not gives MANY_TO_ONE; neither gives ONE_TO_ONE. The
  derivation yields a result for every association that has two ends with their bounds,
  and every association of a parsed model is the result of this derivation on an
  association element of the document.
\<close>

theorem cardinality_derivation:
  "(associationOf a = Inr d \<longrightarrow>
      (\<exists>e0 e1 es u0 us0 u1 us1.
         ownedEnd a = e0 # e1 # es \<and> upperValue e0 = u0 # us0 \<and> upperValue e1 = u1 # us1 \<and>
         (bound_value u0 = Some ''*'' \<and> bound_value u1 = Some ''*''
            \<longrightarrow> assoc_type d = Some MANY_TO_MANY) \<and>
         (bound_value u1 = Some ''*'' \<and> bound_value u0 \<noteq> Some ''*''
            \<longrightarrow> assoc_type d = Some ONE_TO_MANY) \<and>
         (bound_value u0 = Some ''*'' \<and> bound_value u1 \<noteq> Some ''*''
            \<longrightarrow> assoc_type d = Some MANY_TO_ONE) \<and>
         (bound_value u0 \<noteq> Some ''*'' \<and> bound_value u1 \<noteq> Some ''*''
            \<longrightarrow> assoc_type d = Some ONE_TO_ONE))) \<and>
   (ownedEnd a = f0 # f1 # fs \<and> lowerValue f0 = l0 # ls0 \<and> lowerValue f1 = l1 # ls1 \<and>
    upperValue f0 = v0 # vs0 \<and> upperValue f1 = v1 # vs1 \<and>
    firstCommentBody (ownedComment a) = Inr c
      \<longrightarrow> (\<exists>d. associationOf a = Inr d)) \<and>
   (parse E root = Inr m \<and> (i, d') \<in> set (pd_associations m)
      \<longrightarrow> (\<exists>a \<in> set (packagedElement root).
             xmi_type a = Some ''uml:Association'' \<and> xmi_id a = i \<and>
             associationOf a = Inr d'))"
proof (intro conjI impI)
  assume r: "associationOf a = Inr d"
  from associationOf_Inr[OF r] obtain e0 e1 es l0 ls0 l1 ls1 u0 us0 u1 us1 c where
    s: "ownedEnd a = e0 # e1 # es" "lowerValue e0 = l0 # ls0" "lowerValue e1 = l1 # ls1"
       "upperValue e0 = u0 # us0" "upperValue e1 = u1 # us1"
       "firstCommentBody (ownedComment a) = Inr c"
    by blast
  from r associationOf_shape[OF s] have
    "assoc_type d = Some (if bound_value u1 = Some ''*''
       then (if bound_value u0 = Some ''*'' then MANY_TO_MANY else ONE_TO_MANY)
       else (if bound_value u0 = Some ''*'' then MANY_TO_ONE else ONE_TO_ONE))"
    by (auto simp: comments_type cardinality_type)
  with s show "\<exists>e0 e1 es u0 us0 u1 us1.
         ownedEnd a = e0 # e1 # es \<and> upperValue e0 = u0 # us0 \<and> upperValue e1 = u1 # us1 \<and>
         (bound_value u0 = Some ''*'' \<and> bound_value u1 = Some ''*''
            \<longrightarrow> assoc_type d = Some MANY_TO_MANY) \<and>
         (bound_value u1 = Some ''*'' \<and> bound_value u0 \<noteq> Some ''*''
            \<longrightarrow> assoc_type d = Some ONE_TO_MANY) \<and>
         (bound_value u0 = Some ''*'' \<and> bound_value u1 \<noteq> Some ''*''
            \<longrightarrow> assoc_type d = Some MANY_TO_ONE) \<and>
         (bound_value u0 \<noteq> Some ''*'' \<and> bound_value u1 \<noteq> Some ''*''
            \<longrightarrow> assoc_type d = Some ONE_TO_ONE)"
    by (intro exI[of _ e0] exI[of _ e1] exI[of _ es] exI[of _ u0] exI[of _ us0]
        exI[of _ u1] exI[of _ us1]) simp
next
  assume "ownedEnd a = f0 # f1 # fs \<and> lowerValue f0 = l0 # ls0 \<and> lowerValue f1 = l1 # ls1 \<and>
    upperValue f0 = v0 # vs0 \<and> upperValue f1 = v1 # vs1 \<and>
    firstCommentBody (ownedComment a) = Inr c"
  then show "\<exists>d. associationOf a = Inr d"
    using associationOf_shape[of a f0 f1 fs l0 ls0 l1 ls1 v0 vs0 v1 vs1 c] by blast
next
  assume "parse E root = Inr m \<and> (i, d') \<in> set (pd_associations m)"
  then show "\<exists>a \<in> set (packagedElement root).
             xmi_type a = Some ''uml:Association'' \<and> xmi_id a = i \<and>
             associationOf a = Inr d'"
    using parse_association_origin by blast
qed

theorem cardinality_derivation_witness:
  "map_sum id assoc_type (associationOf (example_association ''1'' ''*'' ''0'' ''*'')) =
     Inr (Some MANY_TO_MANY) \<and>
   map_sum id assoc_type (associationOf (example_association ''1'' ''5'' ''0'' ''*'')) =
     Inr (Some ONE_TO_MANY) \<and>
   map_sum id assoc_type (associationOf (example_association ''1'' ''*'' ''0'' ''3'')) =
     Inr (Some MANY_TO_ONE) \<and>
   map_sum id assoc_type (associationOf (example_association ''1'' ''1'' ''0'' ''1'')) =
     Inr (Some ONE_TO_ONE) \<and>
   parse example_env order_document = Inr order_model \<and>
   (Some ''as1'', many_to_one_data) \<in> set (pd_associations order_model) \<and>
   (\<exists>a \<in> set (packagedElement order_document).
      xmi_type a = Some ''uml:Association'' \<and> xmi_id a = Some ''as1'' \<and>
      associationOf a = Inr many_to_one_data)"
proof -
  have k: "map_sum id assoc_type (associationOf (example_association ''1'' u0 ''0'' u1)) =
      Inr (Some (if u1 = ''*'' then (if u0 = ''*'' then MANY_TO_MANY else ONE_TO_MANY)
                 else (if u0 = ''*'' then MANY_TO_ONE else ONE_TO_ONE)))" for u0 u1
  proof -
    let ?a = "example_association ''1'' u0 ''0'' u1"
    have shape: "ownedEnd ?a =
         role_end ''c1'' ''customer'' ''1'' u0 # role_end ''c2'' ''orders'' ''0'' u1 # [] \<and>
       lowerValue (role_end ''c1'' ''customer'' ''1'' u0) = \<lparr>bound_value = Some ''1''\<rparr> # [] \<and>
       lowerValue (role_end ''c2'' ''orders'' ''0'' u1) = \<lparr>bound_value = Some ''0''\<rparr> # [] \<and>
       upperValue (role_end ''c1'' ''customer'' ''1'' u0) = \<lparr>bound_value = Some u0\<rparr> # [] \<and>
       upperValue (role_end ''c2'' ''orders'' ''0'' u1) = \<lparr>bound_value = Some u1\<rparr> # [] \<and>
       firstCommentBody (ownedComment ?a) = Inr (Some ''placed by'')"
      by (simp add: example_association_def empty_element_def role_end_def
          firstCommentBody_def at_index_def)
    from cardinality_derivation[where a = ?a, THEN conjunct2, THEN conjunct1, rule_format,
        OF shape]
    obtain d where d: "associationOf ?a = Inr d" by blast
    from cardinality_derivation[where a = ?a and d = d, THEN conjunct1] d
    obtain e0 e1 es v0 vs0 v1 vs1 where
      s: "ownedEnd ?a = e0 # e1 # es" "upperValue e0 = v0 # vs0" "upperValue e1 = v1 # vs1"
      and c: "bound_value v0 = Some ''*'' \<and> bound_value v1 = Some ''*''
              \<longrightarrow> assoc_type d = Some MANY_TO_MANY"
        "bound_value v1 = Some ''*'' \<and> bound_value v0 \<noteq> Some ''*''
              \<longrightarrow> assoc_type d = Some ONE_TO_MANY"
        "bound_value v0 = Some ''*'' \<and> bound_value v1 \<noteq> Some ''*''
              \<longrightarrow> assoc_type d = Some MANY_TO_ONE"
        "bound_value v0 \<noteq> Some ''*'' \<and> bound_value v1 \<noteq> Some ''*''
              \<longrightarrow> assoc_type d = Some ONE_TO_ONE"
      by blast
    from s have "bound_value v0 = Some u0" "bound_value v1 = Some u1"
      by (auto simp: example_association_def role_end_def empty_element_def)
    with c d show ?thesis by auto
  qed
  have p: "parse example_env order_document = Inr order_model"
    by (simp add: order_document_def order_model_def example_defs run_defs many_to_one_data_def)
  have q: "(Some ''as1'', many_to_one_data) \<in> set (pd_associations order_model)"
    by (simp add: order_model_def)
  from cardinality_derivation[where E = example_env and root = order_document
      and m = order_model and i = "Some ''as1''" and d' = many_to_one_data,
      THEN conjunct2, THEN conjunct2] p q
  have o: "\<exists>a \<in> set (packagedElement order_document).
      xmi_type a = Some ''uml:Association'' \<and> xmi_id a = Some ''as1'' \<and>
      associationOf a = Inr many_to_one_data"
    by blast
  from k[of "''*''" "''*''"] k[of "''5''" "''*''"] k[of "''*''" "''3''"] k[of "''1''" "''1''"]
    p q o show ?thesis by simp
qed

lemma comments_spec:
  "commentInFrom (comments c (cardinality u0 u1 (requiredFlags l0 l1 d))) =
     (case c of None \<Rightarrow> commentInFrom d | Some t \<Rightarrow> Some t)"
  "commentInTo (comments c (cardinality u0 u1 (requiredFlags l0 l1 d))) =
     (case c of None \<Rightarrow> commentInTo d | Some t \<Rightarrow> Some t)"
  by (simp_all add: comments_def cardinality_def requiredFlags_def Let_def split: option.splits)

lemma associationOf_comments:
  assumes "associationOf a = Inr d"
  shows "\<exists>c. firstCommentBody (ownedComment a) = Inr c \<and> commentInFrom d = c \<and> commentInTo d = c"
proof -
  from associationOf_Inr[OF assms] obtain e0 e1 es l0 ls0 l1 ls1 u0 us0 u1 us1 c where
    s: "ownedEnd a = e0 # e1 # es" "lowerValue e0 = l0 # ls0" "lowerValue e1 = l1 # ls1"
       "upperValue e0 = u0 # us0" "upperValue e1 = u1 # us1"
       "firstCommentBody (ownedComment a) = Inr c"
    by blast
  from assms associationOf_shape[OF s] have "commentInFrom d = c \<and> commentInTo d = c"
    by (auto simp: comments_spec split: option.splits)
  with s(6) show ?thesis by blast
qed

text \<open>
  C9. When the association element carries a comment with a body, the association stores
  the first text of that body as commentInFrom and copies it to commentInTo, so the two are
  equal; with no comment, or a comment without a body, neither is set. This holds for the
  object that the loop of fillAssociations builds, and so for every association of a
  parsed model.
\<close>

theorem association_comment_on_both_ends:
  "(associationOf a = Inr d \<longrightarrow>
      commentInTo d = commentInFrom d \<and>
      (\<forall>c cs t ts. ownedComment a = Some (c # cs) \<and> body c = Some (t # ts)
         \<longrightarrow> commentInFrom d = Some t \<and> commentInTo d = Some t) \<and>
      (ownedComment a = None \<longrightarrow> commentInFrom d = None \<and> commentInTo d = None) \<and>
      (\<forall>c cs. ownedComment a = Some (c # cs) \<and> body c = None
         \<longrightarrow> commentInFrom d = None \<and> commentInTo d = None)) \<and>
   (parse E root = Inr m \<and> (i, d') \<in> set (pd_associations m)
      \<longrightarrow> commentInTo d' = commentInFrom d')"
proof (intro conjI impI)
  assume r: "associationOf a = Inr d"
  from associationOf_comments[OF r] obtain c where
    c: "firstCommentBody (ownedComment a) = Inr c" "commentInFrom d = c" "commentInTo d = c"
    by blast
  show "commentInTo d = commentInFrom d" using c by simp
  show "\<forall>c cs t ts. ownedComment a = Some (c # cs) \<and> body c = Some (t # ts)
         \<longrightarrow> commentInFrom d = Some t \<and> commentInTo d = Some t"
    using c by (auto simp: firstCommentBody_def at_index_def)
  show "\<forall>c cs. ownedComment a = Some (c # cs) \<and> body c = None
         \<longrightarrow> commentInFrom d = None \<and> commentInTo d = None"
    using c by (auto simp: firstCommentBody_def at_index_def)
  assume "ownedComment a = None"
  then show "commentInFrom d = None" "commentInTo d = None"
    using c by (auto simp: firstCommentBody_def)
next
  assume "parse E root = Inr m \<and> (i, d') \<in> set (pd_associations m)"
  then obtain a where "associationOf a = Inr d'"
    using parse_association_origin by blast
  from associationOf_comments[OF this] show "commentInTo d' = commentInFrom d'" by auto
qed

theorem association_comment_on_both_ends_witness:
  "associationOf (example_association ''1'' ''*'' ''0'' ''1'') = Inr many_to_one_data \<and>
   ownedComment (example_association ''1'' ''*'' ''0'' ''1'') =
     Some [\<lparr>body = Some [''placed by'']\<rparr>] \<and>
   commentInFrom many_to_one_data = Some ''placed by'' \<and>
   commentInTo many_to_one_data = Some ''placed by'' \<and>
   associationOf plain_association = Inr plain_data \<and>
   ownedComment plain_association = None \<and>
   commentInFrom plain_data = None \<and> commentInTo plain_data = None \<and>
   parse example_env order_document = Inr order_model \<and>
   (Some ''as1'', many_to_one_data) \<in> set (pd_associations order_model)"
proof -
  let ?a = "example_association ''1'' ''*'' ''0'' ''1''"
  have h1: "associationOf ?a = Inr many_to_one_data"
    by (simp add: example_defs run_defs many_to_one_data_def)
  have h2: "ownedComment ?a = Some (\<lparr>body = Some [''placed by'']\<rparr> # []) \<and>
     body \<lparr>body = Some [''placed by'']\<rparr> = Some (''placed by'' # [])"
    by (simp add: example_defs)
  have h3: "associationOf plain_association = Inr plain_data"
    by (simp add: plain_association_def plain_data_def example_defs run_defs)
  have h4: "ownedComment plain_association = None"
    by (simp add: plain_association_def)
  have p: "parse example_env order_document = Inr order_model"
    by (simp add: order_document_def order_model_def example_defs run_defs many_to_one_data_def)
  have q: "(Some ''as1'', many_to_one_data) \<in> set (pd_associations order_model)"
    by (simp add: order_model_def)
  note inst = association_comment_on_both_ends[where a = ?a and d = many_to_one_data
      and E = example_env and root = order_document and m = order_model
      and i = "Some ''as1''" and d' = many_to_one_data]
  from inst h1 h2 have 1: "commentInFrom many_to_one_data = Some ''placed by'' \<and>
     commentInTo many_to_one_data = Some ''placed by''"
    by blast
  from association_comment_on_both_ends[where a = plain_association and d = plain_data,
      THEN conjunct1] h3 h4
  have 2: "commentInFrom plain_data = None \<and> commentInTo plain_data = None"
    by blast
  from h1 h2 h3 h4 1 2 p q show ?thesis by simp
qed

lemma requiredFlags_spec:
  "isInjectedFieldInFromRequired (comments c (cardinality u0 u1 (requiredFlags l0 l1 d))) =
     (if bound_value l0 \<noteq> Some ''0'' then Some True else isInjectedFieldInFromRequired d)"
  "isInjectedFieldInToRequired (comments c (cardinality u0 u1 (requiredFlags l0 l1 d))) =
     (if bound_value l1 \<noteq> Some ''0'' then Some True else isInjectedFieldInToRequired d)"
  by (simp_all add: comments_def cardinality_def requiredFlags_def Let_def split: option.splits)

text \<open>
  C1. The claim reads: a lower bound other than 0 on end 0 sets isInjectedFieldInToRequired,
  and one on end 1 sets isInjectedFieldInFromRequired. The parser names the field injected
  in the target class after end 0 and the field injected in the source class after end 1,
  and it reads the upper bound of end 1 as the multiplicity of the target side; the lower
  bounds go the other way round. On an association whose end 0 (named customer) has the
  lower bound 1 and whose end 1 (named orders) has the lower bound 0, the field injected
  in the target class is customer, and the flag that is set is
  isInjectedFieldInFromRequired, which belongs to the field orders; with the two lower
  bounds exchanged the flag that is set is isInjectedFieldInToRequired, and with both
  lower bounds 0 neither flag is set.
\<close>

theorem required_flags_follow_their_own_end:
  "map_sum id (\<lambda>d. (injectedFieldInFrom d, isInjectedFieldInFromRequired d,
                    injectedFieldInTo d, isInjectedFieldInToRequired d))
     (associationOf (example_association ''1'' ''1'' ''0'' ''1'')) =
     Inr (Some ''orders'', Some True, Some ''customer'', None) \<and>
   map_sum id (\<lambda>d. (injectedFieldInFrom d, isInjectedFieldInFromRequired d,
                    injectedFieldInTo d, isInjectedFieldInToRequired d))
     (associationOf (example_association ''0'' ''1'' ''1'' ''1'')) =
     Inr (Some ''orders'', None, Some ''customer'', Some True) \<and>
   map_sum id (\<lambda>d. (isInjectedFieldInFromRequired d, isInjectedFieldInToRequired d))
     (associationOf (example_association ''0'' ''1'' ''0'' ''1'')) = Inr (None, None)"
  by (simp add: example_defs run_defs)

section \<open>Fields\<close>

lemma addType_types:
  "addType E typeName typeId p = Inr p' \<Longrightarrow>
   contains E (upperFirst E (lodash_toString typeName)) \<and>
   p' = p\<lparr>parsedData :=
          pd_addType typeId \<lparr>type_name = upperFirst E (lodash_toString typeName)\<rparr>
            (parsedData p)\<rparr>"
  by (auto simp: addType_def split: if_splits)

text \<open>
  C2, as amended. A class attribute that carries a non-empty inline type attribute, whose
  name is not reserved and whose comment (if any) is well formed, is inserted as a field
  with the attribute's name, first letter in lower case, and with the inline type exactly
  as it is written: the type is not capitalized. Capitalization is what addType does: it
  accepts a name whose capitalized form the database types contain, and it registers the
  capitalized form. So a type element of the document is registered under its capitalized
  name, and an attribute without inline type that is accepted has a type element whose link
  gives a name; the capitalized name is registered as a type and is the field's type.
\<close>

theorem inline_type_used_as_written:
  "(attr_type a = Some t \<and> t \<noteq> [] \<and> \<not> isReservedFieldName E (attr_name a) (getName E) \<and>
    firstCommentBody (attr_ownedComment a) = Inr c \<longrightarrow>
      addRegularField E a classId p =
        Inr (p\<lparr>parsedData := pd_addField classId (attr_id a)
               \<lparr>field_name = lowerFirst E (lodash_toString (attr_name a)), field_type = t,
                  field_comment = c\<rparr> (parsedData p)\<rparr>)) \<and>
   (addType E typeName typeId p = Inr p' \<longrightarrow>
      contains E (upperFirst E (lodash_toString typeName)) \<and>
      pd_types (parsedData p') =
        pd_types (parsedData p) @
          [(typeId, \<lparr>type_name = upperFirst E (lodash_toString typeName)\<rparr>)]) \<and>
   (contains E (upperFirst E (lodash_toString typeName)) \<longrightarrow>
      (\<exists>p'. addType E typeName typeId p = Inr p')) \<and>
   (i < length (packagedElement root) \<and> fillType E root i p = Inr p' \<longrightarrow>
      pd_types (parsedData p') =
        pd_types (parsedData p) @
          [(xmi_id (packagedElement root ! i),
            \<lparr>type_name = upperFirst E (lodash_toString (name (packagedElement root ! i)))\<rparr>)]) \<and>
   (\<not> truthy (attr_type a) \<and> addRegularField E a classId p = Inr q \<longrightarrow>
      (\<exists>r rs u comment.
          attr_typeElement a = Some (r # rs) \<and> getTypeNameFromURL E (href r) = Inr u \<and>
          pd_types (parsedData q) =
            pd_types (parsedData p) @
              [(Some (upperFirst E u), \<lparr>type_name = upperFirst E (upperFirst E u)\<rparr>)] \<and>
          pd_fields (parsedData q) =
            pd_fields (parsedData p) @
              [(classId, attr_id a,
                \<lparr>field_name = lowerFirst E (lodash_toString (attr_name a)),
                   field_type = upperFirst E u, field_comment = comment\<rparr>)]))"
proof (intro conjI impI)
  show "addRegularField E a classId p =
        Inr (p\<lparr>parsedData := pd_addField classId (attr_id a)
               \<lparr>field_name = lowerFirst E (lodash_toString (attr_name a)), field_type = t,
                  field_comment = c\<rparr> (parsedData p)\<rparr>)"
    if "attr_type a = Some t \<and> t \<noteq> [] \<and> \<not> isReservedFieldName E (attr_name a) (getName E) \<and>
      firstCommentBody (attr_ownedComment a) = Inr c"
    using that
    by (simp add: addRegularField_def checkForReservedFieldName_def resolveFieldType_def
        truthy_def js_string_def)
  show "contains E (upperFirst E (lodash_toString typeName))"
    if "addType E typeName typeId p = Inr p'"
    using addType_types[OF that] by simp
  show "pd_types (parsedData p') =
        pd_types (parsedData p) @
          [(typeId, \<lparr>type_name = upperFirst E (lodash_toString typeName)\<rparr>)]"
    if "addType E typeName typeId p = Inr p'"
    using addType_types[OF that] by (simp add: pd_addType_def)
  show "\<exists>p'. addType E typeName typeId p = Inr p'"
    if "contains E (upperFirst E (lodash_toString typeName))"
    using that by (simp add: addType_def)
  show "pd_types (parsedData p') =
        pd_types (parsedData p) @
          [(xmi_id (packagedElement root ! i),
            \<lparr>type_name = upperFirst E (lodash_toString (name (packagedElement root ! i)))\<rparr>)]"
    if h: "i < length (packagedElement root) \<and> fillType E root i p = Inr p'"
  proof -
    from h have "addType E (name (packagedElement root ! i)) (xmi_id (packagedElement root ! i)) p
        = Inr p'"
      by (auto simp: fillType_def at_index_def)
    from addType_types[OF this] show ?thesis by (simp add: pd_addType_def)
  qed
  show "\<exists>r rs u comment.
          attr_typeElement a = Some (r # rs) \<and> getTypeNameFromURL E (href r) = Inr u \<and>
          pd_types (parsedData q) =
            pd_types (parsedData p) @
              [(Some (upperFirst E u), \<lparr>type_name = upperFirst E (upperFirst E u)\<rparr>)] \<and>
          pd_fields (parsedData q) =
            pd_fields (parsedData p) @
              [(classId, attr_id a,
                \<lparr>field_name = lowerFirst E (lodash_toString (attr_name a)),
                   field_type = upperFirst E u, field_comment = comment\<rparr>)]"
    if h: "\<not> truthy (attr_type a) \<and> addRegularField E a classId p = Inr q"
  proof -
    from h obtain ft p1 comment where 1: "resolveFieldType E a p = Inr (ft, p1)"
      and 2: "q = p1\<lparr>parsedData := pd_addField classId (attr_id a)
               \<lparr>field_name = lowerFirst E (lodash_toString (attr_name a)), field_type = ft,
                  field_comment = comment\<rparr> (parsedData p1)\<rparr>"
      by (auto simp: addRegularField_def split: sum.splits)
    from h 1 obtain r rs u where 3: "attr_typeElement a = Some (r # rs)"
      and 4: "getTypeNameFromURL E (href r) = Inr u"
      and 5: "ft = upperFirst E u"
      and 6: "addType E (Some (upperFirst E u)) (Some (upperFirst E u)) p = Inr p1"
      by (cases "attr_typeElement a"; cases "the (attr_typeElement a)")
        (auto simp: resolveFieldType_def at_index_def split: sum.splits if_splits)
    from addType_types[OF 6] have 7: "p1 = p\<lparr>parsedData :=
          pd_addType (Some (upperFirst E u)) \<lparr>type_name = upperFirst E (upperFirst E u)\<rparr>
            (parsedData p)\<rparr>"
      by (simp add: lodash_toString_def)
    show ?thesis
      by (intro exI[of _ r] exI[of _ rs] exI[of _ u] exI[of _ comment])
        (simp add: 2 3 4 5 7 pd_addField_def pd_addType_def)
  qed
qed

theorem inline_type_used_as_written_witness:
  "attr_type name_attribute = Some ''string'' \<and> ''string'' \<noteq> [] \<and>
   \<not> isReservedFieldName example_env (attr_name name_attribute) (getName example_env) \<and>
   firstCommentBody (attr_ownedComment name_attribute) = Inr None \<and>
   map_sum id (pd_fields \<circ> parsedData)
     (addRegularField example_env name_attribute (Some ''c1'') AbstractParser) =
     Inr [(Some ''c1'', Some ''a1'',
           \<lparr>field_name = ''name'', field_type = ''string'', field_comment = None\<rparr>)] \<and>
   contains example_env (upperFirst example_env (lodash_toString (Some ''string''))) \<and>
   map_sum id (pd_types \<circ> parsedData)
     (addType example_env (Some ''string'') (Some ''t1'') AbstractParser) =
     Inr [(Some ''t1'', \<lparr>type_name = ''String''\<rparr>)] \<and>
   0 < length (packagedElement typed_document) \<and>
   map_sum id (pd_types \<circ> parsedData) (fillType example_env typed_document 0 AbstractParser) =
     Inr [(Some ''t1'', \<lparr>type_name = ''String''\<rparr>)] \<and>
   \<not> truthy (attr_type linked_attribute) \<and>
   map_sum id (pd_types \<circ> parsedData)
     (addRegularField example_env linked_attribute (Some ''c1'') AbstractParser) =
     Inr [(Some ''Integer'', \<lparr>type_name = ''Integer''\<rparr>)] \<and>
   map_sum id (pd_fields \<circ> parsedData)
     (addRegularField example_env linked_attribute (Some ''c1'') AbstractParser) =
     Inr [(Some ''c1'', Some ''a5'',
           \<lparr>field_name = ''count'', field_type = ''Integer'', field_comment = None\<rparr>)] \<and>
   parse example_env typed_document =
     Inr \<lparr>pd_types = [(Some ''t1'', \<lparr>type_name = ''String''\<rparr>),
                      (Some ''Integer'', \<lparr>type_name = ''Integer''\<rparr>)],
          pd_enums = [],
          pd_classes = [(Some ''c1'', \<lparr>class_name = ''Customer'',
             class_tableName = ''customer'', class_comment = None\<rparr>)],
          pd_fields = [(Some ''c1'', Some ''a1'',
             \<lparr>field_name = ''name'', field_type = ''string'', field_comment = None\<rparr>),
            (Some ''c1'', Some ''a5'',
             \<lparr>field_name = ''count'', field_type = ''Integer'', field_comment = None\<rparr>)],
          pd_associations = []\<rparr>"
proof -
  have a: "attr_type name_attribute = Some ''string'' \<and> ''string'' \<noteq> [] \<and>
     \<not> isReservedFieldName example_env (attr_name name_attribute) (getName example_env) \<and>
     firstCommentBody (attr_ownedComment name_attribute) = Inr None"
    by (simp add: more_defs example_defs firstCommentBody_def)
  have b: "contains example_env (upperFirst example_env (lodash_toString (Some ''string'')))"
    by (simp add: example_defs lodash_toString_def ascii_upperFirst_def ascii_upper_def
        upper_letters_def lower_letters_def)
  have l: "\<not> truthy (attr_type linked_attribute)"
    by (simp add: linked_attribute_def empty_attribute_def truthy_def)
  have d: "0 < length (packagedElement typed_document)"
    by (simp add: typed_document_def)
  have r1: "addType example_env (Some ''string'') (Some ''t1'') AbstractParser =
      Inr (AbstractParser\<lparr>parsedData := pd_empty\<lparr>pd_types :=
             [(Some ''t1'', \<lparr>type_name = ''String''\<rparr>)]\<rparr>\<rparr>)"
    by (simp add: example_defs run_defs)
  have r2: "fillType example_env typed_document 0 AbstractParser =
      Inr (AbstractParser\<lparr>parsedData := pd_empty\<lparr>pd_types :=
             [(Some ''t1'', \<lparr>type_name = ''String''\<rparr>)]\<rparr>\<rparr>)"
    by (simp add: typed_document_def string_type_def example_defs run_defs)
  have r3: "addRegularField example_env linked_attribute (Some ''c1'') AbstractParser =
      Inr (AbstractParser\<lparr>parsedData := pd_empty\<lparr>pd_types :=
             [(Some ''Integer'', \<lparr>type_name = ''Integer''\<rparr>)],
           pd_fields := [(Some ''c1'', Some ''a5'',
             \<lparr>field_name = ''count'', field_type = ''Integer'', field_comment = None\<rparr>)]\<rparr>\<rparr>)"
    by (simp add: linked_attribute_def example_defs run_defs)
  have r4: "parse example_env typed_document =
     Inr \<lparr>pd_types = [(Some ''t1'', \<lparr>type_name = ''String''\<rparr>),
                      (Some ''Integer'', \<lparr>type_name = ''Integer''\<rparr>)],
          pd_enums = [],
          pd_classes = [(Some ''c1'', \<lparr>class_name = ''Customer'',
             class_tableName = ''customer'', class_comment = None\<rparr>)],
          pd_fields = [(Some ''c1'', Some ''a1'',
             \<lparr>field_name = ''name'', field_type = ''string'', field_comment = None\<rparr>),
            (Some ''c1'', Some ''a5'',
             \<lparr>field_name = ''count'', field_type = ''Integer'', field_comment = None\<rparr>)],
          pd_associations = []\<rparr>"
    by (simp add: typed_document_def string_type_def linked_attribute_def more_defs
        example_defs run_defs)
  let ?typed = "AbstractParser\<lparr>parsedData := pd_empty\<lparr>pd_types :=
             [(Some ''t1'', \<lparr>type_name = ''String''\<rparr>)]\<rparr>\<rparr>"
  let ?linked = "AbstractParser\<lparr>parsedData := pd_empty\<lparr>pd_types :=
             [(Some ''Integer'', \<lparr>type_name = ''Integer''\<rparr>)],
           pd_fields := [(Some ''c1'', Some ''a5'',
             \<lparr>field_name = ''count'', field_type = ''Integer'', field_comment = None\<rparr>)]\<rparr>\<rparr>"
  note inst = inline_type_used_as_written[where E = example_env and a = name_attribute
      and t = "''string''" and c = None and classId = "Some ''c1''" and p = AbstractParser
      and typeName = "Some ''string''" and typeId = "Some ''t1''" and i = 0
      and root = typed_document and p' = ?typed and q = ?linked]
  note link = inline_type_used_as_written[where E = example_env and a = linked_attribute
      and t = "''string''" and c = None and classId = "Some ''c1''" and p = AbstractParser
      and typeName = "Some ''string''" and typeId = "Some ''t1''" and i = 0
      and root = typed_document and p' = ?typed and q = ?linked]
  from inst a
  have 1: "addRegularField example_env name_attribute (Some ''c1'') AbstractParser =
        Inr (AbstractParser\<lparr>parsedData := pd_addField (Some ''c1'') (attr_id name_attribute)
               \<lparr>field_name = lowerFirst example_env (lodash_toString (attr_name name_attribute)),
                  field_type = ''string'', field_comment = None\<rparr> (parsedData AbstractParser)\<rparr>)"
    by blast
  have 2: "map_sum id (pd_fields \<circ> parsedData)
     (addRegularField example_env name_attribute (Some ''c1'') AbstractParser) =
     Inr [(Some ''c1'', Some ''a1'',
           \<lparr>field_name = ''name'', field_type = ''string'', field_comment = None\<rparr>)]"
    unfolding 1
    by (simp add: more_defs example_defs AbstractParser_def pd_empty_def
        pd_addField_def ascii_lowerFirst_def lodash_toString_def ascii_lower_def
        upper_letters_def lower_letters_def)
  from inst r1 have 3: "pd_types (parsedData ?typed) =
      pd_types (parsedData AbstractParser) @
        [(Some ''t1'', \<lparr>type_name = upperFirst example_env (lodash_toString (Some ''string''))\<rparr>)]"
    by blast
  from inst b have 4: "\<exists>p'. addType example_env (Some ''string'') (Some ''t1'') AbstractParser =
      Inr p'"
    by blast
  from inst d r2 have 5: "pd_types (parsedData ?typed) =
      pd_types (parsedData AbstractParser) @
        [(xmi_id (packagedElement typed_document ! 0),
          \<lparr>type_name = upperFirst example_env
             (lodash_toString (name (packagedElement typed_document ! 0)))\<rparr>)]"
    by blast
  from link l r3 have 6: "\<exists>r rs u comment.
      attr_typeElement linked_attribute = Some (r # rs) \<and>
      getTypeNameFromURL example_env (href r) = Inr u \<and>
      pd_types (parsedData ?linked) =
        pd_types (parsedData AbstractParser) @
          [(Some (upperFirst example_env u),
            \<lparr>type_name = upperFirst example_env (upperFirst example_env u)\<rparr>)] \<and>
      pd_fields (parsedData ?linked) =
        pd_fields (parsedData AbstractParser) @
          [(Some ''c1'', attr_id linked_attribute,
            \<lparr>field_name = lowerFirst example_env (lodash_toString (attr_name linked_attribute)),
               field_type = upperFirst example_env u, field_comment = comment\<rparr>)]"
    by blast
  have m: "map_sum id (pd_types \<circ> parsedData)
       (addType example_env (Some ''string'') (Some ''t1'') AbstractParser) =
       Inr [(Some ''t1'', \<lparr>type_name = ''String''\<rparr>)]"
    "map_sum id (pd_types \<circ> parsedData) (fillType example_env typed_document 0 AbstractParser) =
       Inr [(Some ''t1'', \<lparr>type_name = ''String''\<rparr>)]"
    "map_sum id (pd_types \<circ> parsedData)
       (addRegularField example_env linked_attribute (Some ''c1'') AbstractParser) =
       Inr [(Some ''Integer'', \<lparr>type_name = ''Integer''\<rparr>)]"
    "map_sum id (pd_fields \<circ> parsedData)
       (addRegularField example_env linked_attribute (Some ''c1'') AbstractParser) =
       Inr [(Some ''c1'', Some ''a5'',
             \<lparr>field_name = ''count'', field_type = ''Integer'', field_comment = None\<rparr>)]"
    unfolding r1 r2 r3 by (simp_all add: pd_empty_def)
  from a b l d 2 3 4 5 6 m r4 show ?thesis by simp
qed

text \<open>
  The claim as it is written fails on the class Customer with the attribute name of inline
  type string: the field's type is string, which is not String.
\<close>

theorem inline_type_not_capitalized:
  "map_sum id (map (\<lambda>(classId, fieldId, d). (field_name d, field_type d)) \<circ> pd_fields)
     (parse example_env customer_document) = Inr [(''name'', ''string'')] \<and>
   ''string'' \<noteq> ''String'' \<and> ''string'' \<noteq> upperFirst example_env ''string''"
  by (simp add: customer_document_def example_defs run_defs)

section \<open>Enumerations\<close>

text \<open>
  The literals of an accepted enumeration all have a name that toUpperCase does not turn
  into the empty string, and the values are what toUpperCase makes of these names, in the
  order of the document.
\<close>

lemma forEach_fillLiteral:
  "forEach (fillLiteral E) ls d = Inr d' \<Longrightarrow>
     (\<forall>l \<in> set ls. \<exists>n. literal_name l = Some n \<and> toUpperCase E n \<noteq> []) \<and>
     enum_name d' = enum_name d \<and>
     enum_values d' = enum_values d @ map (\<lambda>l. toUpperCase E (js_string (literal_name l))) ls"
proof (induction ls arbitrary: d)
  case Nil
  then show ?case by simp
next
  case (Cons l ls)
  from Cons.prems obtain d1 where 1: "fillLiteral E l d = Inr d1"
    and 2: "forEach (fillLiteral E) ls d1 = Inr d'"
    by (auto split: sum.splits)
  from 1 obtain n where n: "literal_name l = Some n" "toUpperCase E n \<noteq> []"
    "d1 = d\<lparr>enum_values := enum_values d @ [toUpperCase E n]\<rparr>"
    by (auto simp: fillLiteral_def split: option.splits if_splits)
  from Cons.IH[OF 2] n show ?case by (auto simp: js_string_def)
qed

lemma fillLiteral_empty_name:
  "literal_name l = Some n \<Longrightarrow> toUpperCase E n = [] \<Longrightarrow>
   \<exists>msg. fillLiteral E l d = Inl (BuildException NullPointer msg)"
  by (simp add: fillLiteral_def)

lemma fillLiteral_no_name: "literal_name l = None \<Longrightarrow> fillLiteral E l d = Inl TypeError"
  by (simp add: fillLiteral_def)

lemma fillEnum_unnamed:
  "i < length (packagedElement root) \<Longrightarrow> \<not> truthy (name (packagedElement root ! i)) \<Longrightarrow>
   \<exists>msg. fillEnum E root i p = Inl (BuildException NullPointer msg)"
  by (simp add: fillEnum_def at_index_def)

text \<open>
  C4. The claim reads: the enum phase fails with NullPointer when the enumeration is unnamed
  or when an owned literal lacks a name. The test on a literal calls toUpperCase on the
  name before it looks at it, so a literal that has no name attribute raises the
  runtime's TypeError, not NullPointer; a literal whose name is the empty string and an
  enumeration without a name do fail with NullPointer, and the values of an accepted
  enumeration are the names in upper case, in the order of the document.
\<close>

theorem literal_without_name_raises_TypeError:
  "parse example_env unnamed_literal_document = Inl TypeError \<and>
   fillEnum example_env unnamed_literal_document 0 AbstractParser = Inl TypeError \<and>
   parse example_env empty_literal_document =
     Inl (BuildException NullPointer
            (''The Enumeration'' @ [CHR 0x27] @ ''s values can'' @ [CHR 0x27] @ ''t be null.'')) \<and>
   parse example_env unnamed_enumeration_document =
     Inl (BuildException NullPointer
            (''The enumeration'' @ [CHR 0x27] @ ''s name can'' @ [CHR 0x27] @ ''t be null.'')) \<and>
   map_sum id pd_enums (parse example_env status_document) =
     Inr [(Some ''e1'', \<lparr>enum_name = ''Status'', enum_values = [''ACTIVE'', ''INACTIVE'']\<rparr>)]"
  by (simp add: unnamed_literal_document_def empty_literal_document_def
      unnamed_enumeration_document_def status_document_def example_defs run_defs)

section \<open>Attributes\<close>

lemma handleAttribute_identifier:
  "attr_name a = Some n \<Longrightarrow> n \<noteq> [] \<Longrightarrow> isAnId E n \<Longrightarrow> handleAttribute E element a p = Inr p"
  by (simp add: handleAttribute_def)

text \<open>
  C10. An attribute whose name is a non-empty string that matches the convention for
  structural identifiers is skipped by the loop of handleAttributes: the parser is left as
  it is and no error is raised, whatever the reserved words are and whether or not the
  attribute has a type. Taking such an attribute out of the list, wherever it stands,
  does not change the outcome of handleAttributes.
\<close>

theorem identifier_attribute_is_not_validated:
  assumes "attr_name a = Some n" and "n \<noteq> []" and "isAnId E n"
  shows "handleAttribute E element a p = Inr p \<and>
     (ownedAttribute element = Some (before @ a # after) \<longrightarrow>
        handleAttributes E element p =
          forEach (handleAttribute E element) (before @ after) p)"
  using assms
  by (auto simp: handleAttributes_def forEach_append handleAttribute_identifier split: sum.splits)

theorem identifier_attribute_is_not_validated_witness:
  "attr_name id_attribute = Some ''id'' \<and> ''id'' \<noteq> [] \<and> isAnId example_env ''id'' \<and>
   isReservedFieldName example_env (attr_name id_attribute) (getName example_env) \<and>
   \<not> truthy (attr_type id_attribute) \<and> attr_typeElement id_attribute = None \<and>
   handleAttribute example_env identifier_class id_attribute AbstractParser =
     Inr AbstractParser \<and>
   ownedAttribute identifier_class =
     Some ([] @ id_attribute #
             [name_attribute, id_attribute\<lparr>attr_name := Some ''ID'', attr_id := Some ''a2''\<rparr>]) \<and>
   handleAttributes example_env identifier_class AbstractParser =
     forEach (handleAttribute example_env identifier_class)
       [name_attribute, id_attribute\<lparr>attr_name := Some ''ID'', attr_id := Some ''a2''\<rparr>]
       AbstractParser"
proof -
  have a: "attr_name id_attribute = Some ''id''" "''id'' \<noteq> []" "isAnId example_env ''id''"
    by (simp_all add: id_attribute_def example_defs ascii_toLowerCase_def ascii_lower_def
        upper_letters_def lower_letters_def)
  have r: "isReservedFieldName example_env (attr_name id_attribute) (getName example_env) \<and>
     \<not> truthy (attr_type id_attribute) \<and> attr_typeElement id_attribute = None"
    by (simp add: id_attribute_def example_defs truthy_def)
  have o: "ownedAttribute identifier_class =
     Some ([] @ id_attribute #
             [name_attribute, id_attribute\<lparr>attr_name := Some ''ID'', attr_id := Some ''a2''\<rparr>])"
    by (simp add: identifier_class_def customer_class_def empty_element_def)
  from identifier_attribute_is_not_validated[OF a, of identifier_class AbstractParser "[]"
      "[name_attribute, id_attribute\<lparr>attr_name := Some ''ID'', attr_id := Some ''a2''\<rparr>]"] o
  have "handleAttribute example_env identifier_class id_attribute AbstractParser =
       Inr AbstractParser \<and>
     handleAttributes example_env identifier_class AbstractParser =
       forEach (handleAttribute example_env identifier_class)
         ([] @ [name_attribute, id_attribute\<lparr>attr_name := Some ''ID'', attr_id := Some ''a2''\<rparr>])
         AbstractParser"
    by blast
  with a r o show ?thesis by simp
qed

subsection \<open>The field table\<close>

lemma addType_fields:
  "addType E n i p = Inr p' \<Longrightarrow> pd_fields (parsedData p') = pd_fields (parsedData p)"
  by (auto simp: addType_def pd_addType_def split: if_splits)

lemma resolveFieldType_fields:
  "resolveFieldType E a p = Inr (t, p') \<Longrightarrow> pd_fields (parsedData p') = pd_fields (parsedData p)"
  by (auto simp: resolveFieldType_def split: if_splits option.splits sum.splits
      dest: addType_fields)

lemma addRegularField_fields:
  assumes "addRegularField E a c p = Inr p'"
  shows "\<exists>d. pd_fields (parsedData p') = pd_fields (parsedData p) @ [(c, attr_id a, d)] \<and>
     field_name d = lowerFirst E (lodash_toString (attr_name a))"
proof -
  from assms obtain t q where r: "resolveFieldType E a p = Inr (t, q)"
    by (auto simp: addRegularField_def split: sum.splits)
  with assms have "\<exists>d. pd_fields (parsedData p') = pd_fields (parsedData q) @ [(c, attr_id a, d)] \<and>
     field_name d = lowerFirst E (lodash_toString (attr_name a))"
    by (auto simp: addRegularField_def pd_addField_def split: sum.splits)
  with resolveFieldType_fields[OF r] show ?thesis by simp
qed

lemma handleAttribute_fields:
  assumes "handleAttribute E element a p = Inr p'"
  shows "map fieldKey (pd_fields (parsedData p')) =
     map fieldKey (pd_fields (parsedData p)) @
       (if isIdentifier E a then []
        else [(xmi_id element, attr_id a, lowerFirst E (lodash_toString (attr_name a)))])"
proof (cases "isIdentifier E a")
  case True
  with assms show ?thesis
    by (auto simp: handleAttribute_def isIdentifier_def split: option.splits if_splits)
next
  case False
  with assms have "addRegularField E a (xmi_id element) p = Inr p'"
    by (auto simp: handleAttribute_def addField_def isIdentifier_def
        split: option.splits if_splits)
  from addRegularField_fields[OF this] False show ?thesis
    by (auto simp: fieldKey_def)
qed

lemma forEach_handleAttribute_fields:
  "forEach (handleAttribute E element) attributes p = Inr p' \<Longrightarrow>
   map fieldKey (pd_fields (parsedData p')) =
     map fieldKey (pd_fields (parsedData p)) @
       map (\<lambda>a. (xmi_id element, attr_id a, lowerFirst E (lodash_toString (attr_name a))))
         (filter (\<lambda>a. \<not> isIdentifier E a) attributes)"
proof (induction attributes arbitrary: p)
  case Nil
  then show ?case by simp
next
  case (Cons a as)
  from Cons.prems obtain q where 1: "handleAttribute E element a p = Inr q"
    and 2: "forEach (handleAttribute E element) as q = Inr p'"
    by (auto split: sum.splits)
  from Cons.IH[OF 2] handleAttribute_fields[OF 1] show ?case by simp
qed

lemma handleAttributes_fields:
  "ownedAttribute element = Some attributes \<Longrightarrow> handleAttributes E element p = Inr p' \<Longrightarrow>
   map fieldKey (pd_fields (parsedData p')) =
     map fieldKey (pd_fields (parsedData p)) @
       map (\<lambda>a. (xmi_id element, attr_id a, lowerFirst E (lodash_toString (attr_name a))))
         (filter (\<lambda>a. \<not> isIdentifier E a) attributes)"
  by (simp add: handleAttributes_def forEach_handleAttribute_fields)

lemma forEach_fields:
  assumes "forEach f xs p = Inr p'"
    and "\<And>x t t'. f x t = Inr t' \<Longrightarrow> pd_fields (parsedData t') = pd_fields (parsedData t)"
  shows "pd_fields (parsedData p') = pd_fields (parsedData p)"
  by (rule forEach_invariant[where I = "\<lambda>t. pd_fields (parsedData t) = pd_fields (parsedData p)",
        OF assms(1)]) (simp_all add: assms(2))

lemma fillTypes_fields:
  "fillTypes E root p = Inr p' \<Longrightarrow> pd_fields (parsedData p') = pd_fields (parsedData p)"
  unfolding fillTypes_def
  by (erule forEach_fields) (auto simp: fillType_def split: sum.splits dest: addType_fields)

lemma fillEnums_fields:
  "fillEnums E root p = Inr p' \<Longrightarrow> pd_fields (parsedData p') = pd_fields (parsedData p)"
  unfolding fillEnums_def
  by (erule forEach_fields)
    (auto simp: fillEnum_def pd_addEnum_def split: sum.splits if_splits option.splits)

lemma fillAssociations_fields:
  "fillAssociations root p = Inr p' \<Longrightarrow> pd_fields (parsedData p') = pd_fields (parsedData p)"
  unfolding fillAssociations_def
  by (erule forEach_fields)
    (auto simp: fillAssociation_def pd_addAssociation_def split: sum.splits)

lemma checkForUserClass_fields:
  "checkForUserClass E e p = Inr p' \<Longrightarrow> parsedData p' = parsedData p"
  by (auto simp: checkForUserClass_def split: if_splits option.splits)

lemma addClass_fields:
  "addClass E e p = Inr p' \<Longrightarrow> pd_fields (parsedData p') = pd_fields (parsedData p)"
  by (auto simp: addClass_def Let_def pd_addClass_def split: sum.splits)

lemma fillClassAndFields_fields:
  assumes "fillClassAndFields E root i p = Inr p'"
  shows "i < length (packagedElement root) \<and>
     map fieldKey (pd_fields (parsedData p')) =
       map fieldKey (pd_fields (parsedData p)) @
         (case ownedAttribute (packagedElement root ! i) of
            None \<Rightarrow> []
          | Some attributes \<Rightarrow>
              map (\<lambda>a. (xmi_id (packagedElement root ! i), attr_id a,
                         lowerFirst E (lodash_toString (attr_name a))))
                (filter (\<lambda>a. \<not> isIdentifier E a) attributes))"
proof -
  let ?e = "packagedElement root ! i"
  from assms have i: "i < length (packagedElement root)"
    by (auto simp: fillClassAndFields_def at_index_def split: if_splits)
  with assms obtain p1 p2 where 1: "checkForUserClass E ?e p = Inr p1"
    and 2: "addClass E ?e p1 = Inr p2"
    and 3: "(case ownedAttribute ?e of None \<Rightarrow> Inr p2
             | Some attributes \<Rightarrow> handleAttributes E ?e p2) = Inr p'"
    by (auto simp: fillClassAndFields_def at_index_def split: if_splits sum.splits)
  have f: "pd_fields (parsedData p2) = pd_fields (parsedData p)"
    using checkForUserClass_fields[OF 1] addClass_fields[OF 2] by simp
  show ?thesis
  proof (cases "ownedAttribute ?e")
    case None
    with 3 f i show ?thesis by simp
  next
    case (Some attributes)
    with 3 have "handleAttributes E ?e p2 = Inr p'" by simp
    from handleAttributes_fields[OF Some this] f i Some show ?thesis by simp
  qed
qed

lemma fillClassesAndFields_origin:
  assumes "forEach (fillClassAndFields E root) is p = Inr p'"
    and "k \<in> set (map fieldKey (pd_fields (parsedData p')))"
  shows "k \<in> set (map fieldKey (pd_fields (parsedData p))) \<or>
     (\<exists>i \<in> set is. i < length (packagedElement root) \<and>
        (\<exists>attributes a. ownedAttribute (packagedElement root ! i) = Some attributes \<and>
           a \<in> set attributes \<and> \<not> isIdentifier E a \<and>
           k = (xmi_id (packagedElement root ! i), attr_id a,
                lowerFirst E (lodash_toString (attr_name a)))))"
  using assms
proof (induction "is" arbitrary: p)
  case Nil
  then show ?case by simp
next
  case (Cons i "is")
  from Cons.prems(1) obtain q where q: "fillClassAndFields E root i p = Inr q"
    and rest: "forEach (fillClassAndFields E root) is q = Inr p'"
    by (auto split: sum.splits)
  note step = fillClassAndFields_fields[OF q]
  from Cons.IH[OF rest Cons.prems(2)] show ?case
  proof
    assume "k \<in> set (map fieldKey (pd_fields (parsedData q)))"
    with step show ?thesis
      by (cases "ownedAttribute (packagedElement root ! i)") auto
  next
    assume "\<exists>i\<in>set is. i < length (packagedElement root) \<and>
        (\<exists>attributes a. ownedAttribute (packagedElement root ! i) = Some attributes \<and>
           a \<in> set attributes \<and> \<not> isIdentifier E a \<and>
           k = (xmi_id (packagedElement root ! i), attr_id a,
                lowerFirst E (lodash_toString (attr_name a))))"
    then show ?thesis by auto
  qed
qed

lemma parse_field_origin:
  assumes "parse E root = Inr m" and "(classId, fieldId, d) \<in> set (pd_fields m)"
  shows "\<exists>element \<in> set (packagedElement root). \<exists>attributes a.
     xmi_type element = Some ''uml:Class'' \<and> xmi_id element = classId \<and>
     ownedAttribute element = Some attributes \<and> a \<in> set attributes \<and>
     attr_id a = fieldId \<and> \<not> isIdentifier E a \<and>
     field_name d = lowerFirst E (lodash_toString (attr_name a))"
proof -
  from assms(1) obtain p' where p': "phases E root AbstractParser = Inr p'"
    and m: "m = parsedData p'"
    by (cases "phases E root AbstractParser") (auto simp: parse_def)
  from p' obtain p0 p1 p2 p3 where 0: "findElements root AbstractParser = Inr p0"
    and 1: "fillTypes E root p0 = Inr p1"
    and 2: "fillEnums E root p1 = Inr p2" and 3: "fillClassesAndFields E root p2 = Inr p3"
    and 4: "fillAssociations root p3 = Inr p'"
    by (rule phases_Inr)
  have e: "pd_fields (parsedData p2) = []"
    using fillTypes_fields[OF 1] fillEnums_fields[OF 2] findElements_parsedData[OF 0]
    by (simp add: AbstractParser_def pd_empty_def)
  have r: "rawClassesIndexes p2 = rawClassesIndexes p0"
    using fillTypes_frame[OF 1] fillEnums_frame[OF 2] by (simp add: frame_def)
  have "(classId, fieldId, field_name d) \<in> set (map fieldKey (pd_fields (parsedData p3)))"
    using assms(2) m fillAssociations_fields[OF 4] by (force simp: fieldKey_def)
  from fillClassesAndFields_origin[OF 3[unfolded fillClassesAndFields_def] this] e
  obtain i attributes a where i: "i \<in> set (rawClassesIndexes p2)"
    "i < length (packagedElement root)"
    and a: "ownedAttribute (packagedElement root ! i) = Some attributes" "a \<in> set attributes"
      "\<not> isIdentifier E a"
      "(classId, fieldId, field_name d) = (xmi_id (packagedElement root ! i), attr_id a,
          lowerFirst E (lodash_toString (attr_name a)))"
    by auto
  from i r findElements_classes[OF 0]
  have "xmi_type (packagedElement root ! i) = Some ''uml:Class''" by auto
  with i a show ?thesis
    by (intro bexI[of _ "packagedElement root ! i"] exI[of _ attributes] exI[of _ a]) auto
qed

text \<open>
  C5. The fields that handleAttributes adds are those of the attributes that do not match
  the convention for structural identifiers, in their order, wherever the matching
  attributes stand in the list; and every field of a parsed model comes from an attribute
  of a class of the document that does not match the convention.
\<close>

theorem identifier_attributes_add_no_field:
  "(ownedAttribute element = Some attributes \<and> handleAttributes E element p = Inr p' \<longrightarrow>
      map fieldKey (pd_fields (parsedData p')) =
        map fieldKey (pd_fields (parsedData p)) @
          map (\<lambda>a. (xmi_id element, attr_id a, lowerFirst E (lodash_toString (attr_name a))))
            (filter (\<lambda>a. \<not> isIdentifier E a) attributes)) \<and>
   (parse E root = Inr m \<and> (classId, fieldId, d) \<in> set (pd_fields m) \<longrightarrow>
      (\<exists>element \<in> set (packagedElement root). \<exists>attributes a.
         xmi_type element = Some ''uml:Class'' \<and> xmi_id element = classId \<and>
         ownedAttribute element = Some attributes \<and> a \<in> set attributes \<and>
         attr_id a = fieldId \<and> \<not> isIdentifier E a \<and>
         field_name d = lowerFirst E (lodash_toString (attr_name a))))"
  using handleAttributes_fields parse_field_origin by blast

theorem identifier_attributes_add_no_field_witness:
  "isIdentifier example_env id_attribute \<and> \<not> isIdentifier example_env name_attribute \<and>
   ownedAttribute identifier_class =
     Some [id_attribute, name_attribute,
           id_attribute\<lparr>attr_name := Some ''ID'', attr_id := Some ''a2''\<rparr>] \<and>
   handleAttributes example_env identifier_class AbstractParser = Inr identifier_parser \<and>
   map fieldKey (pd_fields (parsedData identifier_parser)) =
     [(Some ''c1'', Some ''a1'', ''name'')] \<and>
   parse example_env identifier_document = Inr customer_model \<and>
   pd_fields customer_model =
     [(Some ''c1'', Some ''a1'',
       \<lparr>field_name = ''name'', field_type = ''string'', field_comment = None\<rparr>)] \<and>
   (\<exists>a \<in> set (the (ownedAttribute identifier_class)).
      attr_id a = Some ''a1'' \<and> \<not> isIdentifier example_env a)"
proof -
  let ?as = "[id_attribute, name_attribute,
      id_attribute\<lparr>attr_name := Some ''ID'', attr_id := Some ''a2''\<rparr>]"
  let ?d = "\<lparr>field_name = ''name'', field_type = ''string'', field_comment = None\<rparr>"
  have i: "isIdentifier example_env id_attribute \<and> \<not> isIdentifier example_env name_attribute"
    by (simp add: isIdentifier_def more_defs example_defs ascii_toLowerCase_def ascii_lower_def
        upper_letters_def lower_letters_def)
  have h: "ownedAttribute identifier_class = Some ?as \<and>
      handleAttributes example_env identifier_class AbstractParser = Inr identifier_parser"
    by (simp add: identifier_parser_def more_defs example_defs run_defs)
  have p: "parse example_env identifier_document = Inr customer_model"
    by (simp add: more_defs example_defs run_defs)
  have f: "pd_fields customer_model = [(Some ''c1'', Some ''a1'', ?d)]"
    by (simp add: customer_model_def)
  note inst = identifier_attributes_add_no_field[where E = example_env
      and element = identifier_class and attributes = ?as and p = AbstractParser
      and p' = identifier_parser and root = identifier_document and m = customer_model
      and classId = "Some ''c1''" and fieldId = "Some ''a1''" and d = ?d]
  from inst h have k0: "map fieldKey (pd_fields (parsedData identifier_parser)) =
     map fieldKey (pd_fields (parsedData AbstractParser)) @
       map (\<lambda>a. (xmi_id identifier_class, attr_id a,
                  lowerFirst example_env (lodash_toString (attr_name a))))
         (filter (\<lambda>a. \<not> isIdentifier example_env a) ?as)"
    by blast
  have flt: "filter (\<lambda>a. \<not> isIdentifier example_env a) ?as = [name_attribute]"
    by (simp add: isIdentifier_def more_defs example_defs ascii_toLowerCase_def ascii_lower_def
        upper_letters_def lower_letters_def)
  have k: "map fieldKey (pd_fields (parsedData identifier_parser)) =
     [(Some ''c1'', Some ''a1'', ''name'')]"
    unfolding k0 flt
    by (simp add: more_defs example_defs AbstractParser_def pd_empty_def
        ascii_lowerFirst_def lodash_toString_def ascii_lower_def upper_letters_def
        lower_letters_def)
  from inst p f obtain element attributes a where
    "element \<in> set (packagedElement identifier_document)"
    "ownedAttribute element = Some attributes" "a \<in> set attributes"
    "attr_id a = Some ''a1''" "\<not> isIdentifier example_env a"
    by auto
  then have "\<exists>a \<in> set (the (ownedAttribute identifier_class)).
      attr_id a = Some ''a1'' \<and> \<not> isIdentifier example_env a"
    by (auto simp: identifier_document_def)
  with i h k p f show ?thesis by simp
qed

subsection \<open>Failures of the class phase\<close>

lemma handleAttributes_fails:
  assumes "ownedAttribute element = Some attributes" and "a \<in> set attributes"
    and "\<And>p. \<exists>e. handleAttribute E element a p = Inl e"
  shows "\<exists>e. handleAttributes E element p = Inl e"
proof -
  have "\<exists>e. forEach (handleAttribute E element) attributes p = Inl e"
    using assms(2) by (rule forEach_fails) (rule assms(3))
  with assms(1) show ?thesis by (simp add: handleAttributes_def)
qed

lemma fillClassAndFields_fails_attribute:
  assumes "ownedAttribute (packagedElement root ! i) = Some attributes"
    and "a \<in> set attributes"
    and "\<And>p. \<exists>e. handleAttribute E (packagedElement root ! i) a p = Inl e"
  shows "\<exists>e. fillClassAndFields E root i p = Inl e"
proof (cases "fillClassAndFields E root i p")
  case (Inl e)
  then show ?thesis by blast
next
  case (Inr p')
  then obtain p2 where "handleAttributes E (packagedElement root ! i) p2 = Inr p'"
    using assms(1)
    by (auto simp: fillClassAndFields_def at_index_def split: if_splits sum.splits)
  with handleAttributes_fails[OF assms, of p2] show ?thesis by auto
qed

lemma phases_fails_class:
  assumes "i < length (packagedElement root)"
    and "xmi_type (packagedElement root ! i) = Some ''uml:Class''"
    and "\<And>p. \<exists>e. fillClassAndFields E root i p = Inl e"
  shows "\<exists>e. parse E root = Inl e"
proof (cases "phases E root AbstractParser")
  case (Inl e)
  then show ?thesis by (simp add: parse_def)
next
  case (Inr p')
  from Inr obtain p0 p1 p2 p3 where 0: "findElements root AbstractParser = Inr p0"
    and 1: "fillTypes E root p0 = Inr p1"
    and 2: "fillEnums E root p1 = Inr p2" and 3: "fillClassesAndFields E root p2 = Inr p3"
    by (rule phases_Inr)
  have "rawClassesIndexes p2 = rawClassesIndexes p0"
    using fillTypes_frame[OF 1] fillEnums_frame[OF 2] by (simp add: frame_def)
  with assms(1,2) findElements_classes[OF 0] have "i \<in> set (rawClassesIndexes p2)"
    by simp
  then have "\<exists>e. forEach (fillClassAndFields E root) (rawClassesIndexes p2) p2 = Inl e"
    by (rule forEach_fails) (rule assms(3))
  with 3 show ?thesis
    by (simp add: fillClassesAndFields_def)
qed

lemma parse_reaches_class:
  assumes "findElements root AbstractParser = Inr p0" and "fillTypes E root p0 = Inr p1"
    and "fillEnums E root p1 = Inr p2"
    and "rawClassesIndexes p0 = earlier @ k # later"
    and "forEach (fillClassAndFields E root) earlier p2 = Inr p3"
    and "fillClassAndFields E root k p3 = Inl e"
  shows "parse E root = Inl e"
proof -
  have "rawClassesIndexes p2 = earlier @ k # later"
    using fillTypes_frame[OF assms(2)] fillEnums_frame[OF assms(3)] assms(4)
    by (simp add: frame_def)
  then have "fillClassesAndFields E root p2 = Inl e"
    using assms(5,6) by (simp add: fillClassesAndFields_def forEach_append)
  with assms(1-3) show ?thesis by (simp add: parse_def phases_def)
qed

lemma fillClassAndFields_reaches_attribute:
  assumes "k < length (packagedElement root)"
    and "truthy (name (packagedElement root ! k))"
    and "checkForUserClass E (packagedElement root ! k) p3 = Inr p4"
    and "addClass E (packagedElement root ! k) p4 = Inr p5"
    and "ownedAttribute (packagedElement root ! k) = Some (accepted @ a # rest)"
    and "forEach (handleAttribute E (packagedElement root ! k)) accepted p5 = Inr p6"
    and "handleAttribute E (packagedElement root ! k) a p6 = Inl e"
  shows "fillClassAndFields E root k p3 = Inl e"
  using assms
  by (simp add: fillClassAndFields_def at_index_def handleAttributes_def forEach_append)

lemma classIndex_in_range:
  assumes "findElements root AbstractParser = Inr p0"
    and "rawClassesIndexes p0 = earlier @ k # later"
  shows "k < length (packagedElement root)"
  using findElements_classes[OF assms(1)] assms(2) by auto

lemma parse_reaches_attribute:
  assumes "findElements root AbstractParser = Inr p0" and "fillTypes E root p0 = Inr p1"
    and "fillEnums E root p1 = Inr p2"
    and "rawClassesIndexes p0 = earlier @ k # later"
    and "forEach (fillClassAndFields E root) earlier p2 = Inr p3"
    and "truthy (name (packagedElement root ! k))"
    and "checkForUserClass E (packagedElement root ! k) p3 = Inr p4"
    and "addClass E (packagedElement root ! k) p4 = Inr p5"
    and "ownedAttribute (packagedElement root ! k) = Some (accepted @ a # rest)"
    and "forEach (handleAttribute E (packagedElement root ! k)) accepted p5 = Inr p6"
    and "handleAttribute E (packagedElement root ! k) a p6 = Inl e"
  shows "parse E root = Inl e"
  by (rule parse_reaches_class[OF assms(1-5)],
      rule fillClassAndFields_reaches_attribute[OF classIndex_in_range[OF assms(1,4)]
        assms(6-11)])

lemma handleAttribute_untyped:
  assumes "attr_name a = Some n" and "n \<noteq> []" and "\<not> isAnId E n"
    and "\<not> truthy (attr_type a)" and "attr_typeElement a = None"
  shows "handleAttribute E element a p =
     (if isReservedFieldName E (Some n) (getName E) then Inl (BuildException ReservedName n)
      else Inl (BuildException WrongField
             (''The field '' @ quoted n @ '' does not possess any type.'')))"
  using assms
  by (simp add: handleAttribute_def addField_def addRegularField_def
      checkForReservedFieldName_def resolveFieldType_def js_string_def)

text \<open>
  C6, as amended. Take a named attribute that does not match the convention for structural
  identifiers and has neither an inline type nor a type element. If its name is not a
  reserved field name, the loop of handleAttributes fails on it with WrongField and the
  message names the field; this is the outcome of handleAttributes whenever the attributes
  before it are accepted. If its name is reserved, the failure is ReservedName, since the
  name is checked first. A document with such an attribute in a class never parses. When
  the parse reaches the attribute, that is when the classification and the phases of the
  types and of the enumerations succeed and the classes before its class, its class and
  the attributes before it are accepted, the parse ends with exactly that error:
  WrongField with the message that names the field, or ReservedName when the name is
  reserved.
\<close>

theorem untyped_field_fails:
  assumes "attr_name a = Some n" and "n \<noteq> []" and "\<not> isAnId E n"
    and "\<not> truthy (attr_type a)" and "attr_typeElement a = None"
  shows "(\<not> isReservedFieldName E (Some n) (getName E) \<longrightarrow>
        handleAttribute E element a p =
          Inl (BuildException WrongField
                 (''The field '' @ quoted n @ '' does not possess any type.''))) \<and>
     (\<not> isReservedFieldName E (Some n) (getName E) \<and>
      ownedAttribute element = Some (before @ a # after) \<and>
      forEach (handleAttribute E element) before p = Inr q \<longrightarrow>
        handleAttributes E element p =
          Inl (BuildException WrongField
                 (''The field '' @ quoted n @ '' does not possess any type.''))) \<and>
     (isReservedFieldName E (Some n) (getName E) \<longrightarrow>
        handleAttribute E element a p = Inl (BuildException ReservedName n)) \<and>
     (i < length (packagedElement root) \<and>
      xmi_type (packagedElement root ! i) = Some ''uml:Class'' \<and>
      ownedAttribute (packagedElement root ! i) = Some attributes \<and> a \<in> set attributes \<longrightarrow>
        (\<exists>e. parse E root = Inl e)) \<and>
     (findElements root AbstractParser = Inr p0 \<and> fillTypes E root p0 = Inr p1 \<and>
      fillEnums E root p1 = Inr p2 \<and> rawClassesIndexes p0 = earlier @ k # later \<and>
      forEach (fillClassAndFields E root) earlier p2 = Inr p3 \<and>
      truthy (name (packagedElement root ! k)) \<and>
      checkForUserClass E (packagedElement root ! k) p3 = Inr p4 \<and>
      addClass E (packagedElement root ! k) p4 = Inr p5 \<and>
      ownedAttribute (packagedElement root ! k) = Some (accepted @ a # rest) \<and>
      forEach (handleAttribute E (packagedElement root ! k)) accepted p5 = Inr p6 \<longrightarrow>
        parse E root =
          (if isReservedFieldName E (Some n) (getName E)
           then Inl (BuildException ReservedName n)
           else Inl (BuildException WrongField
                  (''The field '' @ quoted n @ '' does not possess any type.''))))"
proof (intro conjI impI)
  note u = handleAttribute_untyped[OF assms]
  show "handleAttribute E element a p =
      Inl (BuildException WrongField (''The field '' @ quoted n @ '' does not possess any type.''))"
    if "\<not> isReservedFieldName E (Some n) (getName E)"
    using that u by simp
  show "handleAttributes E element p =
      Inl (BuildException WrongField (''The field '' @ quoted n @ '' does not possess any type.''))"
    if "\<not> isReservedFieldName E (Some n) (getName E) \<and>
      ownedAttribute element = Some (before @ a # after) \<and>
      forEach (handleAttribute E element) before p = Inr q"
    using that u[of element q] by (simp add: handleAttributes_def forEach_append)
  show "handleAttribute E element a p = Inl (BuildException ReservedName n)"
    if "isReservedFieldName E (Some n) (getName E)"
    using that u by simp
  show "\<exists>e. parse E root = Inl e"
    if h: "i < length (packagedElement root) \<and>
      xmi_type (packagedElement root ! i) = Some ''uml:Class'' \<and>
      ownedAttribute (packagedElement root ! i) = Some attributes \<and> a \<in> set attributes"
  proof -
    have "\<exists>e. handleAttribute E (packagedElement root ! i) a p = Inl e" for p
      using handleAttribute_untyped[OF assms, of "packagedElement root ! i" p] by simp
    then have "\<exists>e. fillClassAndFields E root i p = Inl e" for p
      using h fillClassAndFields_fails_attribute[of root i attributes a E p] by blast
    with h show ?thesis using phases_fails_class[of i root E] by blast
  qed
  show "parse E root =
          (if isReservedFieldName E (Some n) (getName E)
           then Inl (BuildException ReservedName n)
           else Inl (BuildException WrongField
                  (''The field '' @ quoted n @ '' does not possess any type.'')))"
    if r: "findElements root AbstractParser = Inr p0 \<and> fillTypes E root p0 = Inr p1 \<and>
      fillEnums E root p1 = Inr p2 \<and> rawClassesIndexes p0 = earlier @ k # later \<and>
      forEach (fillClassAndFields E root) earlier p2 = Inr p3 \<and>
      truthy (name (packagedElement root ! k)) \<and>
      checkForUserClass E (packagedElement root ! k) p3 = Inr p4 \<and>
      addClass E (packagedElement root ! k) p4 = Inr p5 \<and>
      ownedAttribute (packagedElement root ! k) = Some (accepted @ a # rest) \<and>
      forEach (handleAttribute E (packagedElement root ! k)) accepted p5 = Inr p6"
  proof -
    from u[of "packagedElement root ! k" p6]
    obtain e where e: "handleAttribute E (packagedElement root ! k) a p6 = Inl e"
      and k: "e = (if isReservedFieldName E (Some n) (getName E)
           then BuildException ReservedName n
           else BuildException WrongField
                  (''The field '' @ quoted n @ '' does not possess any type.''))"
      by (simp split: if_splits)
    from r e have "parse E root = Inl e"
      using parse_reaches_attribute[of root p0 E p1 p2 earlier k later p3 p4 p5 accepted a rest
          p6 e]
      by blast
    with k show ?thesis by simp
  qed
qed

theorem untyped_field_fails_witness:
  "attr_name untyped_attribute = Some ''age'' \<and> ''age'' \<noteq> [] \<and>
   \<not> isAnId example_env ''age'' \<and> \<not> truthy (attr_type untyped_attribute) \<and>
   attr_typeElement untyped_attribute = None \<and>
   \<not> isReservedFieldName example_env (Some ''age'') (getName example_env) \<and>
   ownedAttribute (customer_class\<lparr>ownedAttribute := Some [name_attribute, untyped_attribute]\<rparr>) =
     Some ([name_attribute] @ untyped_attribute # []) \<and>
   forEach (handleAttribute example_env
       (customer_class\<lparr>ownedAttribute := Some [name_attribute, untyped_attribute]\<rparr>))
     [name_attribute] AbstractParser = Inr identifier_parser \<and>
   handleAttribute example_env
     (customer_class\<lparr>ownedAttribute := Some [name_attribute, untyped_attribute]\<rparr>)
     untyped_attribute AbstractParser =
     Inl (BuildException WrongField
            (''The field '' @ quoted ''age'' @ '' does not possess any type.'')) \<and>
   handleAttributes example_env
     (customer_class\<lparr>ownedAttribute := Some [name_attribute, untyped_attribute]\<rparr>)
     AbstractParser =
     Inl (BuildException WrongField
            (''The field '' @ quoted ''age'' @ '' does not possess any type.'')) \<and>
   findElements (untyped_document [name_attribute, untyped_attribute]) AbstractParser =
     Inr classified_parser \<and>
   fillTypes example_env (untyped_document [name_attribute, untyped_attribute])
     classified_parser = Inr classified_parser \<and>
   fillEnums example_env (untyped_document [name_attribute, untyped_attribute])
     classified_parser = Inr classified_parser \<and>
   rawClassesIndexes classified_parser = [] @ 0 # [] \<and>
   addClass example_env
     (packagedElement (untyped_document [name_attribute, untyped_attribute]) ! 0)
     classified_parser = Inr (customer_parser (Some ''c1'')) \<and>
   forEach (handleAttribute example_env
       (packagedElement (untyped_document [name_attribute, untyped_attribute]) ! 0))
     [name_attribute] (customer_parser (Some ''c1'')) =
     Inr (customer_name_parser (Some ''c1'')) \<and>
   parse example_env (untyped_document [name_attribute, untyped_attribute]) =
     Inl (BuildException WrongField
            (''The field '' @ quoted ''age'' @ '' does not possess any type.'')) \<and>
   isReservedFieldName example_env (Some ''select'') (getName example_env) \<and>
   handleAttribute example_env customer_class (select_attribute\<lparr>attr_type := None\<rparr>)
     AbstractParser = Inl (BuildException ReservedName ''select'')"
proof -
  let ?root = "untyped_document [name_attribute, untyped_attribute]"
  let ?c = "customer_class\<lparr>ownedAttribute := Some [name_attribute, untyped_attribute]\<rparr>"
  have a: "attr_name untyped_attribute = Some ''age''" "''age'' \<noteq> []"
    "\<not> isAnId example_env ''age''" "\<not> truthy (attr_type untyped_attribute)"
    "attr_typeElement untyped_attribute = None"
    by (simp_all add: more_defs example_defs truthy_def ascii_toLowerCase_def ascii_lower_def
        upper_letters_def lower_letters_def)
  have r: "\<not> isReservedFieldName example_env (Some ''age'') (getName example_env)"
    by (simp add: example_defs)
  have o: "ownedAttribute ?c = Some ([name_attribute] @ untyped_attribute # [])"
    by simp
  have b: "forEach (handleAttribute example_env ?c) [name_attribute] AbstractParser =
     Inr identifier_parser"
    by (simp add: identifier_parser_def more_defs example_defs run_defs)
  have d: "0 < length (packagedElement ?root) \<and>
      xmi_type (packagedElement ?root ! 0) = Some ''uml:Class'' \<and>
      ownedAttribute (packagedElement ?root ! 0) = Some [name_attribute, untyped_attribute] \<and>
      untyped_attribute \<in> set [name_attribute, untyped_attribute]"
    by (simp add: more_defs example_defs)
  have s0: "findElements ?root AbstractParser = Inr classified_parser"
    by (simp add: state_defs more_defs example_defs run_defs)
  have s1: "fillTypes example_env ?root classified_parser = Inr classified_parser"
    "fillEnums example_env ?root classified_parser = Inr classified_parser"
    "rawClassesIndexes classified_parser = [] @ 0 # []"
    "forEach (fillClassAndFields example_env ?root) [] classified_parser = Inr classified_parser"
    by (simp_all add: state_defs fillTypes_def fillEnums_def AbstractParser_def)
  have s2: "truthy (name (packagedElement ?root ! 0))"
    "checkForUserClass example_env (packagedElement ?root ! 0) classified_parser =
       Inr classified_parser"
    "addClass example_env (packagedElement ?root ! 0) classified_parser =
       Inr (customer_parser (Some ''c1''))"
    "ownedAttribute (packagedElement ?root ! 0) = Some ([name_attribute] @ untyped_attribute # [])"
    by (simp_all add: state_defs more_defs example_defs run_defs)
  have s3: "forEach (handleAttribute example_env (packagedElement ?root ! 0)) [name_attribute]
       (customer_parser (Some ''c1'')) = Inr (customer_name_parser (Some ''c1''))"
    by (simp add: state_defs more_defs example_defs run_defs)
  note inst = untyped_field_fails[OF a, where element = ?c and p = AbstractParser
      and before = "[name_attribute]" and q = identifier_parser and after = "[]"
      and i = 0 and root = ?root and attributes = "[name_attribute, untyped_attribute]"
      and ?p0.0 = classified_parser and ?p1.0 = classified_parser
      and ?p2.0 = classified_parser and earlier = "[]" and k = 0 and later = "[]"
      and ?p3.0 = classified_parser and ?p4.0 = classified_parser
      and ?p5.0 = "customer_parser (Some ''c1'')" and accepted = "[name_attribute]"
      and rest = "[]" and ?p6.0 = "customer_name_parser (Some ''c1'')"]
  from inst r o b d have 1:
    "handleAttribute example_env ?c untyped_attribute AbstractParser =
       Inl (BuildException WrongField
              (''The field '' @ quoted ''age'' @ '' does not possess any type.'')) \<and>
     handleAttributes example_env ?c AbstractParser =
       Inl (BuildException WrongField
              (''The field '' @ quoted ''age'' @ '' does not possess any type.'')) \<and>
     (\<exists>e. parse example_env ?root = Inl e)"
    by blast
  from inst[THEN conjunct2, THEN conjunct2, THEN conjunct2, THEN conjunct2] s0 s1 s2 s3 r
  have 2: "parse example_env ?root =
     Inl (BuildException WrongField
            (''The field '' @ quoted ''age'' @ '' does not possess any type.''))"
    by simp
  have s: "attr_name (select_attribute\<lparr>attr_type := None\<rparr>) = Some ''select''"
    "''select'' \<noteq> []" "\<not> isAnId example_env ''select''"
    "\<not> truthy (attr_type (select_attribute\<lparr>attr_type := None\<rparr>))"
    "attr_typeElement (select_attribute\<lparr>attr_type := None\<rparr>) = None"
    by (simp_all add: more_defs example_defs truthy_def ascii_toLowerCase_def ascii_lower_def
        upper_letters_def lower_letters_def)
  have t: "isReservedFieldName example_env (Some ''select'') (getName example_env)"
    by (simp add: example_defs)
  from untyped_field_fails[OF s, where element = customer_class
      and p = AbstractParser] t
  have 3: "handleAttribute example_env customer_class (select_attribute\<lparr>attr_type := None\<rparr>)
     AbstractParser = Inl (BuildException ReservedName ''select'')"
    by blast
  from a r o b s0 s1 s2 s3 1 2 t 3 show ?thesis by simp
qed

text \<open>
  The claim as it is written fails: with a reserved name the error is ReservedName, and
  after an attribute without a name the error is NullPointer.
\<close>

theorem untyped_field_other_errors:
  "parse example_env
     (untyped_document [name_attribute, select_attribute\<lparr>attr_type := None\<rparr>]) =
     Inl (BuildException ReservedName ''select'') \<and>
   parse example_env (untyped_document [empty_attribute, untyped_attribute]) =
     Inl (BuildException NullPointer
            (''No name is defined for the passed attribute, for class ''
               @ quoted ''Customer'' @ ''.''))"
  by (simp add: more_defs example_defs run_defs)

section \<open>Reserved names\<close>

lemma addClass_reserved:
  "addClass E element p =
     (if isReservedClassName E (upperFirst E (entityName (extractClassName E (name element))))
      then Inl (BuildException ReservedName
                 (upperFirst E (entityName (extractClassName E (name element)))))
      else if isReservedTableName E (tableName (extractClassName E (name element))) (getName E)
      then Inl (BuildException ReservedName (tableName (extractClassName E (name element))))
      else (case firstCommentBody (ownedComment element) of
              Inl e \<Rightarrow> Inl e
            | Inr comment \<Rightarrow>
                Inr (p\<lparr>parsedData :=
                       pd_addClass (xmi_id element)
                         \<lparr>class_name =
                            upperFirst E (entityName (extractClassName E (name element))),
                          class_tableName = tableName (extractClassName E (name element)),
                          class_comment = comment\<rparr>
                         (parsedData p)\<rparr>)))"
  by (simp add: addClass_def Let_def checkForReservedClassName_def
      checkForReservedTableName_def)

lemma checkForUserClass_named:
  "truthy (name element) \<Longrightarrow> \<exists>p'. checkForUserClass E element p = Inr p'"
  by (auto simp: checkForUserClass_def truthy_def split: option.splits)

lemma fillClassAndFields_reserved:
  assumes "k < length (packagedElement root)"
    and "truthy (name (packagedElement root ! k))"
  shows "fillClassAndFields E root k p =
     (if isReservedClassName E
           (upperFirst E (entityName (extractClassName E (name (packagedElement root ! k)))))
      then Inl (BuildException ReservedName
             (upperFirst E (entityName (extractClassName E (name (packagedElement root ! k))))))
      else if isReservedTableName E
           (tableName (extractClassName E (name (packagedElement root ! k)))) (getName E)
      then Inl (BuildException ReservedName
             (tableName (extractClassName E (name (packagedElement root ! k)))))
      else fillClassAndFields E root k p)"
proof -
  from checkForUserClass_named[OF assms(2)] obtain p' where
    "checkForUserClass E (packagedElement root ! k) p = Inr p'" by blast
  with assms show ?thesis
    by (simp add: fillClassAndFields_def at_index_def addClass_reserved)
qed

lemma fillClassAndFields_reserved_class:
  assumes "isReservedClassName E (upperFirst E (entityName (extractClassName E (name (packagedElement root ! i))))) \<or>
     isReservedTableName E (tableName (extractClassName E (name (packagedElement root ! i)))) (getName E)"
  shows "\<exists>e. fillClassAndFields E root i p = Inl e"
proof (cases "i < length (packagedElement root)")
  case True
  with assms show ?thesis
    by (auto simp: fillClassAndFields_def at_index_def addClass_reserved split: sum.splits)
next
  case False
  then show ?thesis by (simp add: fillClassAndFields_def at_index_def)
qed

lemma handleAttribute_reserved:
  assumes "attr_name a = Some n" and "n \<noteq> []" and "\<not> isAnId E n"
    and "isReservedFieldName E (Some n) (getName E)"
  shows "handleAttribute E element a p = Inl (BuildException ReservedName n)"
  using assms
  by (simp add: handleAttribute_def addField_def addRegularField_def
      checkForReservedFieldName_def js_string_def)

text \<open>
  C7, as amended. addClass fails with ReservedName when the canonical class name is
  reserved, and otherwise when the table name is reserved for the database type;
  addRegularField fails with ReservedName when the attribute's name, as written, is
  reserved for the database type, and so does the loop of handleAttributes on a named
  attribute that does not match the convention for structural identifiers. A document
  with such a class or such an attribute never parses. When the parse reaches the class,
  that is when the classification and the phases of the types and of the enumerations
  succeed and the classes before it are accepted, the parse ends with ReservedName and
  the reserved class name or table name; when it reaches the attribute, its class and the
  attributes before it being accepted too, the parse ends with ReservedName and the
  attribute's name. The check of the class name takes no database type.
\<close>

theorem reserved_names_fail:
  "(isReservedClassName E (upperFirst E (entityName (extractClassName E (name element)))) \<longrightarrow>
      addClass E element p =
        Inl (BuildException ReservedName
               (upperFirst E (entityName (extractClassName E (name element)))))) \<and>
   (\<not> isReservedClassName E (upperFirst E (entityName (extractClassName E (name element)))) \<and>
    isReservedTableName E (tableName (extractClassName E (name element))) (getName E) \<longrightarrow>
      addClass E element p =
        Inl (BuildException ReservedName (tableName (extractClassName E (name element))))) \<and>
   (isReservedFieldName E (attr_name a) (getName E) \<longrightarrow>
      addRegularField E a classId p =
        Inl (BuildException ReservedName (js_string (attr_name a)))) \<and>
   (attr_name a = Some n \<and> n \<noteq> [] \<and> \<not> isAnId E n \<and>
    isReservedFieldName E (Some n) (getName E) \<longrightarrow>
      handleAttribute E element a p = Inl (BuildException ReservedName n)) \<and>
   (i < length (packagedElement root) \<and>
    xmi_type (packagedElement root ! i) = Some ''uml:Class'' \<and>
    (isReservedClassName E
       (upperFirst E (entityName (extractClassName E (name (packagedElement root ! i))))) \<or>
     isReservedTableName E
       (tableName (extractClassName E (name (packagedElement root ! i)))) (getName E)) \<longrightarrow>
      (\<exists>e. parse E root = Inl e)) \<and>
   (i < length (packagedElement root) \<and>
    xmi_type (packagedElement root ! i) = Some ''uml:Class'' \<and>
    ownedAttribute (packagedElement root ! i) = Some attributes \<and> a \<in> set attributes \<and>
    attr_name a = Some n \<and> n \<noteq> [] \<and> \<not> isAnId E n \<and>
    isReservedFieldName E (Some n) (getName E) \<longrightarrow>
      (\<exists>e. parse E root = Inl e)) \<and>
   (findElements root AbstractParser = Inr p0 \<and> fillTypes E root p0 = Inr p1 \<and>
    fillEnums E root p1 = Inr p2 \<and> rawClassesIndexes p0 = earlier @ k # later \<and>
    forEach (fillClassAndFields E root) earlier p2 = Inr p3 \<and>
    truthy (name (packagedElement root ! k)) \<and>
    isReservedClassName E
      (upperFirst E (entityName (extractClassName E (name (packagedElement root ! k))))) \<longrightarrow>
      parse E root =
        Inl (BuildException ReservedName
               (upperFirst E (entityName (extractClassName E (name (packagedElement root ! k))))))) \<and>
   (findElements root AbstractParser = Inr p0 \<and> fillTypes E root p0 = Inr p1 \<and>
    fillEnums E root p1 = Inr p2 \<and> rawClassesIndexes p0 = earlier @ k # later \<and>
    forEach (fillClassAndFields E root) earlier p2 = Inr p3 \<and>
    truthy (name (packagedElement root ! k)) \<and>
    \<not> isReservedClassName E
      (upperFirst E (entityName (extractClassName E (name (packagedElement root ! k))))) \<and>
    isReservedTableName E
      (tableName (extractClassName E (name (packagedElement root ! k)))) (getName E) \<longrightarrow>
      parse E root =
        Inl (BuildException ReservedName
               (tableName (extractClassName E (name (packagedElement root ! k)))))) \<and>
   (findElements root AbstractParser = Inr p0 \<and> fillTypes E root p0 = Inr p1 \<and>
    fillEnums E root p1 = Inr p2 \<and> rawClassesIndexes p0 = earlier @ k # later \<and>
    forEach (fillClassAndFields E root) earlier p2 = Inr p3 \<and>
    truthy (name (packagedElement root ! k)) \<and>
    checkForUserClass E (packagedElement root ! k) p3 = Inr p4 \<and>
    addClass E (packagedElement root ! k) p4 = Inr p5 \<and>
    ownedAttribute (packagedElement root ! k) = Some (accepted @ a # rest) \<and>
    forEach (handleAttribute E (packagedElement root ! k)) accepted p5 = Inr p6 \<and>
    attr_name a = Some n \<and> n \<noteq> [] \<and> \<not> isAnId E n \<and>
    isReservedFieldName E (Some n) (getName E) \<longrightarrow>
      parse E root = Inl (BuildException ReservedName n))"
proof (intro conjI impI)
  show "addClass E element p =
        Inl (BuildException ReservedName
               (upperFirst E (entityName (extractClassName E (name element)))))"
    if "isReservedClassName E (upperFirst E (entityName (extractClassName E (name element))))"
    using that by (simp add: addClass_reserved)
  show "addClass E element p =
        Inl (BuildException ReservedName (tableName (extractClassName E (name element))))"
    if "\<not> isReservedClassName E (upperFirst E (entityName (extractClassName E (name element)))) \<and>
      isReservedTableName E (tableName (extractClassName E (name element))) (getName E)"
    using that by (simp add: addClass_reserved)
  show "addRegularField E a classId p =
        Inl (BuildException ReservedName (js_string (attr_name a)))"
    if "isReservedFieldName E (attr_name a) (getName E)"
    using that by (simp add: addRegularField_def checkForReservedFieldName_def)
  show "handleAttribute E element a p = Inl (BuildException ReservedName n)"
    if "attr_name a = Some n \<and> n \<noteq> [] \<and> \<not> isAnId E n \<and>
      isReservedFieldName E (Some n) (getName E)"
    using that handleAttribute_reserved by blast
  show "\<exists>e. parse E root = Inl e"
    if h: "i < length (packagedElement root) \<and>
      xmi_type (packagedElement root ! i) = Some ''uml:Class'' \<and>
      (isReservedClassName E
         (upperFirst E (entityName (extractClassName E (name (packagedElement root ! i))))) \<or>
       isReservedTableName E
         (tableName (extractClassName E (name (packagedElement root ! i)))) (getName E))"
  proof -
    from h have "\<exists>e. fillClassAndFields E root i p = Inl e" for p
      using fillClassAndFields_reserved_class[of E root i p] by blast
    with h show ?thesis using phases_fails_class[of i root E] by blast
  qed
  show "\<exists>e. parse E root = Inl e"
    if h: "i < length (packagedElement root) \<and>
      xmi_type (packagedElement root ! i) = Some ''uml:Class'' \<and>
      ownedAttribute (packagedElement root ! i) = Some attributes \<and> a \<in> set attributes \<and>
      attr_name a = Some n \<and> n \<noteq> [] \<and> \<not> isAnId E n \<and>
      isReservedFieldName E (Some n) (getName E)"
  proof -
    from h have "\<exists>e. handleAttribute E (packagedElement root ! i) a p = Inl e" for p
      using handleAttribute_reserved[of a n E "packagedElement root ! i" p] by simp
    then have "\<exists>e. fillClassAndFields E root i p = Inl e" for p
      using h fillClassAndFields_fails_attribute[of root i attributes a E p] by blast
    with h show ?thesis using phases_fails_class[of i root E] by blast
  qed
  show "parse E root =
        Inl (BuildException ReservedName
               (upperFirst E (entityName (extractClassName E (name (packagedElement root ! k))))))"
    if h: "findElements root AbstractParser = Inr p0 \<and> fillTypes E root p0 = Inr p1 \<and>
      fillEnums E root p1 = Inr p2 \<and> rawClassesIndexes p0 = earlier @ k # later \<and>
      forEach (fillClassAndFields E root) earlier p2 = Inr p3 \<and>
      truthy (name (packagedElement root ! k)) \<and>
      isReservedClassName E
        (upperFirst E (entityName (extractClassName E (name (packagedElement root ! k)))))"
  proof -
    from h have "k < length (packagedElement root)"
      using classIndex_in_range[of root p0 earlier k later] by blast
    with h have "fillClassAndFields E root k p3 =
        Inl (BuildException ReservedName
               (upperFirst E (entityName (extractClassName E (name (packagedElement root ! k))))))"
      using fillClassAndFields_reserved[of k root E p3] by simp
    with h show ?thesis
      using parse_reaches_class[of root p0 E p1 p2 earlier k later p3] by blast
  qed
  show "parse E root =
        Inl (BuildException ReservedName
               (tableName (extractClassName E (name (packagedElement root ! k)))))"
    if h: "findElements root AbstractParser = Inr p0 \<and> fillTypes E root p0 = Inr p1 \<and>
      fillEnums E root p1 = Inr p2 \<and> rawClassesIndexes p0 = earlier @ k # later \<and>
      forEach (fillClassAndFields E root) earlier p2 = Inr p3 \<and>
      truthy (name (packagedElement root ! k)) \<and>
      \<not> isReservedClassName E
        (upperFirst E (entityName (extractClassName E (name (packagedElement root ! k))))) \<and>
      isReservedTableName E
        (tableName (extractClassName E (name (packagedElement root ! k)))) (getName E)"
  proof -
    from h have "k < length (packagedElement root)"
      using classIndex_in_range[of root p0 earlier k later] by blast
    with h have "fillClassAndFields E root k p3 =
        Inl (BuildException ReservedName
               (tableName (extractClassName E (name (packagedElement root ! k)))))"
      using fillClassAndFields_reserved[of k root E p3] by simp
    with h show ?thesis
      using parse_reaches_class[of root p0 E p1 p2 earlier k later p3] by blast
  qed
  show "parse E root = Inl (BuildException ReservedName n)"
    if h: "findElements root AbstractParser = Inr p0 \<and> fillTypes E root p0 = Inr p1 \<and>
      fillEnums E root p1 = Inr p2 \<and> rawClassesIndexes p0 = earlier @ k # later \<and>
      forEach (fillClassAndFields E root) earlier p2 = Inr p3 \<and>
      truthy (name (packagedElement root ! k)) \<and>
      checkForUserClass E (packagedElement root ! k) p3 = Inr p4 \<and>
      addClass E (packagedElement root ! k) p4 = Inr p5 \<and>
      ownedAttribute (packagedElement root ! k) = Some (accepted @ a # rest) \<and>
      forEach (handleAttribute E (packagedElement root ! k)) accepted p5 = Inr p6 \<and>
      attr_name a = Some n \<and> n \<noteq> [] \<and> \<not> isAnId E n \<and>
      isReservedFieldName E (Some n) (getName E)"
  proof -
    from h have "handleAttribute E (packagedElement root ! k) a p6 =
        Inl (BuildException ReservedName n)"
      using handleAttribute_reserved[of a n E "packagedElement root ! k" p6] by blast
    with h show ?thesis
      using parse_reaches_attribute[of root p0 E p1 p2 earlier k later p3 p4 p5 accepted a rest
          p6 "BuildException ReservedName n"]
      by blast
  qed
qed

theorem reserved_names_fail_witness:
  "isReservedClassName example_env
     (upperFirst example_env (entityName (extractClassName example_env
        (name (class_named ''Class'' [select_attribute]))))) \<and>
   addClass example_env (class_named ''Class'' [select_attribute]) AbstractParser =
     Inl (BuildException ReservedName ''Class'') \<and>
   \<not> isReservedClassName example_env
     (upperFirst example_env (entityName (extractClassName example_env (name (class_named ''Order'' []))))) \<and>
   isReservedTableName example_env
     (tableName (extractClassName example_env (name (class_named ''Order'' []))))
     (getName example_env) \<and>
   addClass example_env (class_named ''Order'' []) AbstractParser =
     Inl (BuildException ReservedName ''order'') \<and>
   isReservedFieldName example_env (attr_name select_attribute) (getName example_env) \<and>
   \<not> isAnId example_env ''select'' \<and>
   addRegularField example_env select_attribute (Some ''c2'') AbstractParser =
     Inl (BuildException ReservedName ''select'') \<and>
   handleAttribute example_env (class_named ''Class'' [select_attribute]) select_attribute
     AbstractParser = Inl (BuildException ReservedName ''select'') \<and>
   findElements reserved_document AbstractParser = Inr classified_parser \<and>
   parse example_env reserved_document = Inl (BuildException ReservedName ''Class'') \<and>
   findElements reserved_table_document AbstractParser = Inr classified_parser \<and>
   parse example_env reserved_table_document = Inl (BuildException ReservedName ''order'') \<and>
   findElements reserved_field_document AbstractParser = Inr classified_parser \<and>
   addClass example_env (packagedElement reserved_field_document ! 0) classified_parser =
     Inr (customer_parser (Some ''c2'')) \<and>
   forEach (handleAttribute example_env (packagedElement reserved_field_document ! 0))
     [name_attribute] (customer_parser (Some ''c2'')) = Inr (customer_name_parser (Some ''c2'')) \<and>
   parse example_env reserved_field_document = Inl (BuildException ReservedName ''select'')"
proof -
  let ?c = "class_named ''Class'' [select_attribute]"
  let ?o = "class_named ''Order'' []"
  let ?k = "class_named ''Customer'' [name_attribute, select_attribute]"
  have c: "isReservedClassName example_env
     (upperFirst example_env (entityName (extractClassName example_env (name ?c))))"
    by (simp add: more_defs example_defs js_string_def ascii_upperFirst_def ascii_upper_def
        upper_letters_def lower_letters_def)
  have o: "\<not> isReservedClassName example_env
       (upperFirst example_env (entityName (extractClassName example_env (name ?o)))) \<and>
     isReservedTableName example_env (tableName (extractClassName example_env (name ?o)))
       (getName example_env)"
    by (simp add: more_defs example_defs js_string_def ascii_upperFirst_def ascii_upper_def
        ascii_toLowerCase_def ascii_lower_def upper_letters_def lower_letters_def)
  have f: "isReservedFieldName example_env (attr_name select_attribute) (getName example_env)"
    "attr_name select_attribute = Some ''select''" "''select'' \<noteq> []"
    "\<not> isAnId example_env ''select''"
    "isReservedFieldName example_env (Some ''select'') (getName example_env)"
    by (simp_all add: more_defs example_defs ascii_toLowerCase_def ascii_lower_def
        upper_letters_def lower_letters_def)
  have e: "packagedElement reserved_document ! 0 = ?c"
    "packagedElement reserved_table_document ! 0 = ?o"
    "packagedElement reserved_field_document ! 0 = ?k"
    by (simp_all add: reserved_document_def reserved_table_document_def
        reserved_field_document_def)
  have s0: "findElements reserved_document AbstractParser = Inr classified_parser"
    "findElements reserved_table_document AbstractParser = Inr classified_parser"
    "findElements reserved_field_document AbstractParser = Inr classified_parser"
    by (simp_all add: reserved_document_def reserved_table_document_def
        reserved_field_document_def state_defs more_defs example_defs run_defs)
  have s1: "fillTypes example_env root classified_parser = Inr classified_parser"
    "fillEnums example_env root classified_parser = Inr classified_parser"
    "rawClassesIndexes classified_parser = [] @ 0 # []"
    "forEach (fillClassAndFields example_env root) [] classified_parser = Inr classified_parser"
    for root
    by (simp_all add: state_defs fillTypes_def fillEnums_def AbstractParser_def)
  have t: "truthy (name (packagedElement reserved_document ! 0))"
    "truthy (name (packagedElement reserved_table_document ! 0))"
    "truthy (name (packagedElement reserved_field_document ! 0))"
    by (simp_all add: e class_named_def empty_element_def truthy_def)
  have s2: "checkForUserClass example_env (packagedElement reserved_field_document ! 0)
       classified_parser = Inr classified_parser"
    "addClass example_env (packagedElement reserved_field_document ! 0) classified_parser =
       Inr (customer_parser (Some ''c2''))"
    "ownedAttribute (packagedElement reserved_field_document ! 0) =
       Some ([name_attribute] @ select_attribute # [])"
    by (simp_all add: e state_defs more_defs example_defs run_defs)
  have s3: "forEach (handleAttribute example_env (packagedElement reserved_field_document ! 0))
       [name_attribute] (customer_parser (Some ''c2'')) =
       Inr (customer_name_parser (Some ''c2''))"
    by (simp add: e state_defs more_defs example_defs run_defs)
  have c': "isReservedClassName example_env
     (upperFirst example_env (entityName (extractClassName example_env
        (name (packagedElement reserved_document ! 0)))))"
    using c by (simp add: e)
  have o': "\<not> isReservedClassName example_env
       (upperFirst example_env (entityName (extractClassName example_env
          (name (packagedElement reserved_table_document ! 0))))) \<and>
     isReservedTableName example_env
       (tableName (extractClassName example_env
          (name (packagedElement reserved_table_document ! 0))))
       (getName example_env)"
    using o by (simp add: e)
  note inst1 = reserved_names_fail[where E = example_env and element = ?c
      and p = AbstractParser and a = select_attribute and n = "''select''"
      and classId = "Some ''c2''" and root = reserved_document and i = 0
      and attributes = "[select_attribute]"
      and ?p0.0 = classified_parser and ?p1.0 = classified_parser
      and ?p2.0 = classified_parser and earlier = "[]" and k = 0 and later = "[]"
      and ?p3.0 = classified_parser and ?p4.0 = classified_parser
      and ?p5.0 = classified_parser and accepted = "[]"
      and rest = "[]" and ?p6.0 = classified_parser]
  note inst2 = reserved_names_fail[where E = example_env and element = ?o
      and p = AbstractParser and a = select_attribute and n = "''select''"
      and classId = "Some ''c2''" and root = reserved_table_document and i = 0
      and attributes = "[]"
      and ?p0.0 = classified_parser and ?p1.0 = classified_parser
      and ?p2.0 = classified_parser and earlier = "[]" and k = 0 and later = "[]"
      and ?p3.0 = classified_parser and ?p4.0 = classified_parser
      and ?p5.0 = classified_parser and accepted = "[]"
      and rest = "[]" and ?p6.0 = classified_parser]
  note inst3 = reserved_names_fail[where E = example_env and element = ?k
      and p = AbstractParser and a = select_attribute and n = "''select''"
      and classId = "Some ''c2''" and root = reserved_field_document and i = 0
      and attributes = "[name_attribute, select_attribute]"
      and ?p0.0 = classified_parser and ?p1.0 = classified_parser
      and ?p2.0 = classified_parser and earlier = "[]" and k = 0 and later = "[]"
      and ?p3.0 = classified_parser and ?p4.0 = classified_parser
      and ?p5.0 = "customer_parser (Some ''c2'')" and accepted = "[name_attribute]"
      and rest = "[]" and ?p6.0 = "customer_name_parser (Some ''c2'')"]
  from inst1 c have 1: "addClass example_env ?c AbstractParser =
      Inl (BuildException ReservedName
             (upperFirst example_env (entityName (extractClassName example_env (name ?c)))))"
    by blast
  from inst2 o have 2: "addClass example_env ?o AbstractParser =
      Inl (BuildException ReservedName (tableName (extractClassName example_env (name ?o))))"
    by blast
  from inst1 f have 3: "addRegularField example_env select_attribute (Some ''c2'') AbstractParser =
      Inl (BuildException ReservedName (js_string (attr_name select_attribute)))"
    by blast
  from inst1 f have 4: "handleAttribute example_env ?c select_attribute AbstractParser =
      Inl (BuildException ReservedName ''select'')"
    by blast
  have d: "0 < length (packagedElement reserved_document) \<and>
     xmi_type (packagedElement reserved_document ! 0) = Some ''uml:Class''"
    "0 < length (packagedElement reserved_field_document) \<and>
     xmi_type (packagedElement reserved_field_document ! 0) = Some ''uml:Class'' \<and>
     ownedAttribute (packagedElement reserved_field_document ! 0) =
       Some [name_attribute, select_attribute] \<and>
     select_attribute \<in> set [name_attribute, select_attribute]"
    by (simp_all add: reserved_document_def reserved_field_document_def class_named_def
        empty_element_def)
  note at5 = conjunct2[THEN conjunct2, THEN conjunct2, THEN conjunct2]
  from inst1[THEN at5, THEN conjunct1] d c'
  have 8: "\<exists>e. parse example_env reserved_document = Inl e"
    by simp
  from inst3[THEN at5, THEN conjunct2, THEN conjunct1] d f
  have 9: "\<exists>e. parse example_env reserved_field_document = Inl e"
    by simp
  note at7 = conjunct2[THEN conjunct2, THEN conjunct2, THEN conjunct2, THEN conjunct2,
      THEN conjunct2]
  from inst1[THEN at7, THEN conjunct1] s0 s1 t c' have 5: "parse example_env reserved_document =
      Inl (BuildException ReservedName
             (upperFirst example_env (entityName (extractClassName example_env
                (name (packagedElement reserved_document ! 0))))))"
    by simp
  from inst2[THEN at7, THEN conjunct2, THEN conjunct1] s0 s1 t o'
  have 6: "parse example_env reserved_table_document =
      Inl (BuildException ReservedName (tableName (extractClassName example_env
             (name (packagedElement reserved_table_document ! 0)))))"
    by simp
  from inst3[THEN at7, THEN conjunct2, THEN conjunct2] s0 s1 s2 s3 t f
  have 7: "parse example_env reserved_field_document =
      Inl (BuildException ReservedName ''select'')"
    by simp
  have n: "upperFirst example_env (entityName (extractClassName example_env (name ?c))) = ''Class''"
    "tableName (extractClassName example_env (name ?o)) = ''order''"
    "js_string (attr_name select_attribute) = ''select''"
    by (simp_all add: more_defs example_defs js_string_def ascii_upperFirst_def ascii_upper_def
        ascii_toLowerCase_def ascii_lower_def upper_letters_def lower_letters_def)
  from c o f 1 2 3 4 5 6 7 8 9 s0 s2 s3 show ?thesis unfolding e n by simp
qed

text \<open>
  The claim as it is written fails: an enumeration without a name ends the parse with
  NullPointer before the class with a reserved name is looked at.
\<close>

theorem reserved_names_other_outcomes:
  "isReservedClassName example_env
     (upperFirst example_env (entityName (extractClassName example_env (name (class_named ''Class'' []))))) \<and>
   parse example_env
     \<lparr>packagedElement = [(status_enumeration [])\<lparr>name := None\<rparr>, class_named ''Class'' []]\<rparr> =
     Inl (BuildException NullPointer
            (''The enumeration'' @ [CHR 0x27] @ ''s name can'' @ [CHR 0x27] @ ''t be null.''))"
  by (simp add: more_defs example_defs run_defs)

end
